theory Spec2Isabelle
  imports Complex_Main
begin

section \<open>The SkyPilot agent: plugins/flytekit-skypilot/flytekitplugins/skypilot/agent.py\<close>

text \<open>
  The development embeds the remote-job lifecycle tracker of \<^verbatim>\<open>agent.py\<close>:
  \<^verbatim>\<open>WrappedProcess\<close>, \<^verbatim>\<open>BlockingProcessHandler\<close>, \<^verbatim>\<open>SkyTaskFuture\<close>,
  \<^verbatim>\<open>SkyTaskTracker\<close>, the module functions \<^verbatim>\<open>query_job_status\<close>,
  \<^verbatim>\<open>check_remote_agent_alive\<close>, and \<^verbatim>\<open>SkyPilotAgent\<close>.

  The module \<^verbatim>\<open>flytekitplugins.skypilot.utils\<close> (\<^verbatim>\<open>TaskStatus\<close>, \<^verbatim>\<open>EventHandler\<close>,
  \<^verbatim>\<open>SkyPathSetting\<close>, \<^verbatim>\<open>TaskRemotePathSetting\<close>, the status tables) and
  \<^verbatim>\<open>flytekitplugins.skypilot.metadata\<close> are imported by \<^verbatim>\<open>agent.py\<close> but their text is
  not part of the sources at hand; what \<^verbatim>\<open>agent.py\<close> needs from them is modelled from the
  specification and marked as such.
\<close>

subsection \<open>Liveness of the remote agent\<close>

text \<open>
  A \<^verbatim>\<open>datetime\<close> is a number of microseconds since the epoch, a \<^verbatim>\<open>timedelta\<close> a number of
  microseconds; \<^verbatim>\<open>timedelta.total_seconds()\<close> divides by \<open>10\<^sup>6\<close>.
\<close>

type_synonym datetime = int
type_synonym timedelta = int

definition total_seconds :: "timedelta \<Rightarrow> real" where
  "total_seconds d = real_of_int d / 1000000"

text \<open>
  Modelled from the spec: \<^verbatim>\<open>sky.skylet.constants.CONTROLLER_IDLE_MINUTES_TO_AUTOSTOP\<close> is a
  constant of the provisioning library; the specification gives the staleness threshold
  as 600 seconds, that is ten minutes.
\<close>

definition CONTROLLER_IDLE_MINUTES_TO_AUTOSTOP :: real where
  "CONTROLLER_IDLE_MINUTES_TO_AUTOSTOP = 10"

text \<open>
  \<^verbatim>\<open>check_remote_agent_alive\<close>: \<open>utc_time\<close> is what \<^verbatim>\<open>datetime.now(timezone.utc)\<close> returns and
  \<open>last_upload_time\<close> what \<^verbatim>\<open>sky_path_setting.last_upload_time()\<close> returns (\<open>None\<close> when no
  heartbeat was ever uploaded).
\<close>

definition check_remote_agent_alive :: "datetime \<Rightarrow> datetime option \<Rightarrow> bool" where
  "check_remote_agent_alive utc_time last_upload_time =
     (case last_upload_time of
        Some t \<Rightarrow>
          (let time_diff = utc_time - t
           in if total_seconds time_diff > CONTROLLER_IDLE_MINUTES_TO_AUTOSTOP * 60
              then False else True)
      | None \<Rightarrow> True)"

subsection \<open>Data imported from the utils and metadata modules\<close>

text \<open>
  Modelled from the spec: \<^verbatim>\<open>JobLaunchType\<close> (module \<^verbatim>\<open>metadata\<close>), "one of MANAGED,
  INTERACTIVE (normalized name)"; \<^verbatim>\<open>agent.py\<close> only compares with \<^verbatim>\<open>MANAGED\<close>.
\<close>

datatype JobLaunchType = MANAGED | INTERACTIVE

text \<open>
  Modelled from the spec: \<^verbatim>\<open>TaskStatus\<close> (module \<^verbatim>\<open>utils\<close>), the enumeration
  INIT, LAUNCHING, RUNNING, DONE.
\<close>

datatype TaskStatus = INIT | LAUNCHING | RUNNING | DONE

text \<open>
  Modelled from the spec: \<^verbatim>\<open>EventHandler\<close> (module \<^verbatim>\<open>utils\<close>), four independent binary
  signals, all clear on construction; terminal means that one of failed, cancel,
  finished is set.
\<close>

record EventHandler =
  launch_done_event :: bool
  failed_event :: bool
  cancel_event :: bool
  finished_event :: bool

definition EventHandler_init :: EventHandler where
  "EventHandler_init =
     \<lparr>launch_done_event = False, failed_event = False, cancel_event = False,
      finished_event = False\<rparr>"

definition is_terminal :: "EventHandler \<Rightarrow> bool" where
  "is_terminal h = (failed_event h \<or> cancel_event h \<or> finished_event h)"

text \<open>Exceptions, as far as the agent tells them apart.\<close>

datatype py_exception =
    AttributeError
  | KeyError string
  | ValueError string
  | NotSupportedError string
  | RuntimeError string
  | Exception_pair py_exception string

text \<open>
  The fields of a task template that \<^verbatim>\<open>agent.py\<close> reads:
  \<^verbatim>\<open>execute_cmd_to_path(container.args)["raw_output_data_prefix"]\<close> and the entries
  \<^verbatim>\<open>job_launch_type\<close>, \<^verbatim>\<open>cluster_name\<close>, \<^verbatim>\<open>task_name\<close> of \<^verbatim>\<open>custom\<close>.
\<close>

record TaskTemplate =
  raw_output_data_prefix :: string
  custom_job_launch_type :: JobLaunchType
  custom_cluster_name :: string
  custom_task_name :: string

text \<open>
  The attributes of a \<^verbatim>\<open>TaskRemotePathSetting\<close> that \<^verbatim>\<open>agent.py\<close> reads
  (\<^verbatim>\<open>file_access.raw_output_prefix\<close>, \<^verbatim>\<open>task_name\<close>, \<^verbatim>\<open>unique_id\<close>,
  \<^verbatim>\<open>remote_error_log\<close>), and those of a \<^verbatim>\<open>SkyPathSetting\<close> it sets.
\<close>

record TaskRemotePathSetting =
  file_access :: string
  job_type :: JobLaunchType
  path_cluster_name :: string
  path_task_name :: string
  unique_id :: string
  remote_error_log :: string

record SkyPathSetting =
  task_level_prefix :: string
  sky_unique_id :: string

text \<open>
  How the pair of an exception and its traceback crosses a \<^verbatim>\<open>multiprocessing\<close> pipe:
  \<^verbatim>\<open>send\<close> pickles it and \<^verbatim>\<open>recv\<close> unpickles it, and either may raise, depending on the
  class of the exception.
\<close>

datatype crossing = Crosses | Send_fails | Recv_fails py_exception

text \<open>
  What the agent takes from outside: the provisioning library's name of the managed-job
  controller cluster, the user hash that names this process, the text of a traceback,
  how an exception pickles, and \<^verbatim>\<open>TaskRemotePathSetting(...).from_task_prefix(task_prefix)\<close>.

  Modelled from the spec: \<^verbatim>\<open>from_task_prefix\<close> (module \<^verbatim>\<open>utils\<close>) is a deterministic
  function of the object-store prefix, the job type, the cluster name and the task
  prefix; it is a parameter here.
\<close>

record env =
  JOB_CONTROLLER_NAME :: string
  hostname :: string
  format_exc :: "py_exception \<Rightarrow> string"
  pickling :: "py_exception \<Rightarrow> crossing"
  from_task_prefix :: "string \<Rightarrow> JobLaunchType \<Rightarrow> string \<Rightarrow> string \<Rightarrow> TaskRemotePathSetting"

subsection \<open>The controller, the tracker and the world they act on\<close>

text \<open>\<^verbatim>\<open>SkyTaskTracker.on_task_deleted\<close> is the only callback ever passed to \<^verbatim>\<open>start\<close>.\<close>

datatype callback = On_task_deleted

text \<open>
  A \<^verbatim>\<open>SkyTaskFuture\<close> object. Coroutines and the launched process are handles into the
  world's tables.
\<close>

record SkyTaskFuture =
  task_kwargs :: TaskTemplate
  launch_coro :: "nat option"
  status_check_coro :: "nat option"
  status_upload_coro :: "nat option"
  sky_path_setting :: TaskRemotePathSetting
  task_name :: string
  cluster_name :: string
  cancel_callback :: "callback option"
  event_handler :: "EventHandler option"
  launched_process :: "nat option"
  task_status :: TaskStatus

text \<open>
  An asyncio task is the coroutine it runs and the done-callbacks added to it;
  \<^verbatim>\<open>functools.partial(self.launch_failed_callback, cause=c, cancel_on_done=b)\<close> is
  \<open>Launch_failed_callback self c b\<close>.
\<close>

datatype coroutine =
    Zip_and_upload
  | Status_poller nat
  | Deletion_status nat
  | Put_task_status nat

datatype done_callback =
    Zip_failed_callback
  | Launch_failed_callback nat string bool

text \<open>
  Calls that leave the process, in the order they are made. A marker of the Remote Path
  Registry is addressed by the tracker's path setting (prefix and host) and the task's
  unique id.
\<close>

type_synonym marker = "string \<times> string \<times> string"

datatype effect =
    Setup_cloud_credential
  | Log_warning string
  | Log_error string
  | Touch_task marker
  | Delete_task marker
  | Put_error_log string string
  | Sky_stop string
  | Sky_down string
  | Upload_delete_proto string
  | Cancel_callback nat

text \<open>
  The state of the process and of the object store: the heap of controller objects
  (an object reference is an index), the class attributes of \<^verbatim>\<open>SkyTaskTracker\<close>
  (\<^verbatim>\<open>_JOB_RESIGTRY\<close>, a dict in insertion order, \<^verbatim>\<open>_sky_path_setting\<close>, \<^verbatim>\<open>_zip_coro\<close>),
  the event loop's tasks, the worker processes started (each by the controller that owns
  it), the touch markers present in the object store, and the trace of outside calls.
\<close>

record world =
  futures :: "SkyTaskFuture list"
  JOB_RESIGTRY :: "(string \<times> nat) list"
  tracker_sky_path_setting :: "SkyPathSetting option"
  zip_coro :: "nat option"
  tasks :: "(coroutine \<times> done_callback list) list"
  procs :: "nat list"
  markers :: "marker set"
  trace :: "effect list"

definition emit :: "effect \<Rightarrow> world \<Rightarrow> world" where
  "emit e w = w\<lparr>trace := trace w @ [e]\<rparr>"

definition update_future :: "nat \<Rightarrow> (SkyTaskFuture \<Rightarrow> SkyTaskFuture) \<Rightarrow> world \<Rightarrow> world" where
  "update_future a g w = w\<lparr>futures := (futures w)[a := g (futures w ! a)]\<rparr>"

text \<open>Python's \<^verbatim>\<open>d[k] = v\<close> on a dict: replace in place, or append a new key.\<close>

fun dict_set :: "'k \<Rightarrow> 'v \<Rightarrow> ('k \<times> 'v) list \<Rightarrow> ('k \<times> 'v) list" where
  "dict_set k v [] = [(k, v)]"
| "dict_set k v ((k', v') # d) = (if k = k' then (k, v) # d else (k', v') # dict_set k v d)"

definition dict_values :: "('k \<times> 'v) list \<Rightarrow> 'v list" where
  "dict_values d = map snd d"

subsection \<open>Remote Path Registry\<close>

text \<open>
  Modelled from the spec: \<^verbatim>\<open>touch_task\<close>, \<^verbatim>\<open>task_exists\<close>, \<^verbatim>\<open>delete_task\<close> of
  \<^verbatim>\<open>SkyPathSetting.remote_path_setting\<close> (module \<^verbatim>\<open>utils\<close>): "touch_task(id) (idempotent,
  creates marker if absent), task_exists(id) -> bool, delete_task(id) (idempotent removal
  of markers)"; none raises.
\<close>

definition marker_of :: "SkyPathSetting \<Rightarrow> string \<Rightarrow> marker" where
  "marker_of sp uid = (task_level_prefix sp, sky_unique_id sp, uid)"

definition touch_task :: "SkyPathSetting \<Rightarrow> string \<Rightarrow> world \<Rightarrow> world" where
  "touch_task sp uid w =
     emit (Touch_task (marker_of sp uid)) (w\<lparr>markers := insert (marker_of sp uid) (markers w)\<rparr>)"

definition task_exists :: "SkyPathSetting \<Rightarrow> string \<Rightarrow> world \<Rightarrow> bool" where
  "task_exists sp uid w = (marker_of sp uid \<in> markers w)"

definition delete_task :: "SkyPathSetting \<Rightarrow> string \<Rightarrow> world \<Rightarrow> world" where
  "delete_task sp uid w =
     emit (Delete_task (marker_of sp uid)) (w\<lparr>markers := markers w - {marker_of sp uid}\<rparr>)"

subsection \<open>SkyTaskFuture\<close>

text \<open>
  \<^verbatim>\<open>SkyTaskFuture.__init__\<close>. The attributes not assigned there keep the class defaults:
  \<^verbatim>\<open>None\<close>, and \<^verbatim>\<open>TaskStatus.INIT\<close> for \<^verbatim>\<open>_task_status\<close>. The file-access provider is
  represented by the raw output prefix it is built from.
\<close>

definition SkyTaskFuture_init :: "env \<Rightarrow> TaskTemplate \<Rightarrow> SkyTaskFuture" where
  "SkyTaskFuture_init ev task_template =
     (let cn = (if custom_job_launch_type task_template = MANAGED
                then JOB_CONTROLLER_NAME ev
                else custom_cluster_name task_template);
          sps = from_task_prefix ev (raw_output_data_prefix task_template)
                  (custom_job_launch_type task_template) cn (custom_task_name task_template)
      in \<lparr>task_kwargs = task_template, launch_coro = None, status_check_coro = None,
          status_upload_coro = None, sky_path_setting = sps, task_name = path_task_name sps,
          cluster_name = cn, cancel_callback = None, event_handler = None,
          launched_process = None, task_status = INIT\<rparr>)"

text \<open>\<^verbatim>\<open>asyncio.create_task\<close> and \<^verbatim>\<open>Task.add_done_callback\<close> on the event loop's table.\<close>

definition create_task :: "coroutine \<Rightarrow> world \<Rightarrow> nat \<times> world" where
  "create_task c w = (length (tasks w), w\<lparr>tasks := tasks w @ [(c, [])]\<rparr>)"

definition add_done_callback :: "nat \<Rightarrow> done_callback \<Rightarrow> world \<Rightarrow> world" where
  "add_done_callback t cb w =
     w\<lparr>tasks := (tasks w)[t := (fst (tasks w ! t), snd (tasks w ! t) @ [cb])]\<rparr>"

text \<open>
  \<^verbatim>\<open>launch_process_wrapper\<close>: \<^verbatim>\<open>BlockingProcessHandler(fn)\<close> builds the wrapped process and
  starts it, \<^verbatim>\<open>get_task\<close> creates the task of its status poller.
\<close>

definition launch_process_wrapper :: "nat \<Rightarrow> world \<Rightarrow> nat \<times> world" where
  "launch_process_wrapper self w =
     (let p = length (procs w);
          w1 = w\<lparr>procs := procs w @ [self]\<rparr>;
          w2 = update_future self (\<lambda>f. f\<lparr>launched_process := Some p\<rparr>) w1
      in create_task (Status_poller p) w2)"

text \<open>\<^verbatim>\<open>SkyTaskFuture.start\<close>.\<close>

definition start :: "nat \<Rightarrow> callback option \<Rightarrow> world \<Rightarrow> world" where
  "start self cb w =
     (let w1 = update_future self (\<lambda>f. f\<lparr>cancel_callback := cb\<rparr>) w;
          w2 = update_future self (\<lambda>f. f\<lparr>event_handler := Some EventHandler_init\<rparr>) w1;
          (t1, w3) = launch_process_wrapper self w2;
          w4 = update_future self (\<lambda>f. f\<lparr>launch_coro := Some t1\<rparr>) w3;
          w5 = add_done_callback t1 (Launch_failed_callback self ''launch'' False) w4;
          (t2, w6) = create_task (Deletion_status self) w5;
          w7 = update_future self (\<lambda>f. f\<lparr>status_check_coro := Some t2\<rparr>) w6;
          w8 = add_done_callback t2 (Launch_failed_callback self ''deletion status'' True) w7;
          (t3, w9) = create_task (Put_task_status self) w8;
          w10 = update_future self (\<lambda>f. f\<lparr>status_upload_coro := Some t3\<rparr>) w9
      in add_done_callback t3 (Launch_failed_callback self ''upload status'' True) w10)"

text \<open>
  \<^verbatim>\<open>SkyTaskFuture.cancel\<close>. It raises \<^verbatim>\<open>AttributeError\<close> on a controller that was never
  started, whose \<^verbatim>\<open>_event_handler\<close> is still \<^verbatim>\<open>None\<close>.
\<close>

definition cancel :: "nat \<Rightarrow> world \<Rightarrow> py_exception option \<times> world" where
  "cancel self w =
     (case event_handler (futures w ! self) of
        None \<Rightarrow> (Some AttributeError, w)
      | Some h \<Rightarrow>
          (None, update_future self (\<lambda>f. f\<lparr>event_handler := Some (h\<lparr>cancel_event := True\<rparr>)\<rparr>) w))"

subsection \<open>SkyTaskTracker\<close>

fun is_NotSupportedError :: "py_exception \<Rightarrow> bool" where
  "is_NotSupportedError (NotSupportedError m) = True"
| "is_NotSupportedError e = False"

text \<open>
  \<^verbatim>\<open>SkyTaskTracker.on_task_deleted\<close>. \<open>stop_raises\<close> is what the provisioning library's
  \<^verbatim>\<open>sky.stop\<close> does when called: it returns (\<open>None\<close>) or raises. The result is the
  exception that leaves the function, if any, and the world reached.
\<close>

definition running_tasks_on_cluster :: "nat \<Rightarrow> world \<Rightarrow> SkyTaskFuture list" where
  "running_tasks_on_cluster deleted_task w =
     filter (\<lambda>task. task_status task = INIT \<and>
                    cluster_name task = cluster_name (futures w ! deleted_task))
       (map (\<lambda>a. futures w ! a) (dict_values (JOB_RESIGTRY w)))"

definition on_task_deleted ::
  "py_exception option \<Rightarrow> nat \<Rightarrow> world \<Rightarrow> py_exception option \<times> world" where
  "on_task_deleted stop_raises deleted_task w =
     (let d = futures w ! deleted_task;
          (raised, w1) =
            (if running_tasks_on_cluster deleted_task w = [] then
               (let w' = emit (Sky_stop (cluster_name d))
                           (emit (Log_warning (''Stopping cluster '' @ cluster_name d)) w)
                in case stop_raises of
                     None \<Rightarrow> (None, w')
                   | Some e \<Rightarrow>
                       if is_NotSupportedError e
                       then (None, emit (Log_warning (''Cluster '' @ cluster_name d @
                                           '' is not supported for stopping.'')) w')
                       else (Some e, w'))
             else (None, w))
      in case raised of
           Some e \<Rightarrow> (Some e, w1)
         | None \<Rightarrow>
             (case tracker_sky_path_setting w1 of
                None \<Rightarrow> (Some AttributeError, w1)
              | Some sp \<Rightarrow> (None, delete_task sp (unique_id (sky_path_setting d)) w1)))"

text \<open>
  \<^verbatim>\<open>SkyTaskFuture.launch_failed_callback\<close>, the done-callback of the three coroutines.
  \<open>task\<close> is how the asyncio task ended. The \<^verbatim>\<open>try\<close> part gives the exception it leaves
  pending, the text of \<^verbatim>\<open>error_cause\<close> and the world; the \<^verbatim>\<open>finally\<close> part follows.
\<close>

datatype task_outcome = Task_returned | Task_raised py_exception | Task_cancelled

definition set_event :: "nat \<Rightarrow> (EventHandler \<Rightarrow> EventHandler) \<Rightarrow> world \<Rightarrow> py_exception option \<times> world" where
  "set_event self g w =
     (case event_handler (futures w ! self) of
        None \<Rightarrow> (Some AttributeError, w)
      | Some h \<Rightarrow> (None, update_future self (\<lambda>f. f\<lparr>event_handler := Some (g h)\<rparr>) w))"

definition callback_try ::
  "env \<Rightarrow> nat \<Rightarrow> task_outcome \<Rightarrow> string \<Rightarrow> bool \<Rightarrow> world
     \<Rightarrow> py_exception option \<times> string \<times> world" where
  "callback_try ev self task cause cancel_on_done w =
     (case task of
        Task_raised e \<Rightarrow>
          (let f = futures w ! self;
               error = format_exc ev e;
               w1 = emit (Put_error_log (unique_id (sky_path_setting f)) error) w;
               w2 = emit (Log_error (''Task '' @ task_name f @ '' failed to '' @ cause @ ''.'' @
                            [CHR 0x0A] @ ''Cause: '' @ [CHR 0x0A] @ error @ [CHR 0x0A] @
                            ''error_log is at '' @ remote_error_log (sky_path_setting f))) w1;
               (raised, w3) = set_event self (\<lambda>h. h\<lparr>failed_event := True\<rparr>) w2
           in (raised, ''Exception'', w3))
      | Task_returned \<Rightarrow>
          (if cancel_on_done then
             (let (raised, w1) = set_event self (\<lambda>h. h\<lparr>finished_event := True\<rparr>) w
              in (raised, ''None'', w1))
           else (None, ''None'', w))
      | Task_cancelled \<Rightarrow>
          (let (raised, w1) = set_event self (\<lambda>h. h\<lparr>cancel_event := True\<rparr>) w
           in (raised, if raised = None then ''Cancelled'' else ''None'', w1)))"

definition callback_finally ::
  "py_exception option \<Rightarrow> nat \<Rightarrow> py_exception option \<Rightarrow> world
     \<Rightarrow> py_exception option \<times> world" where
  "callback_finally stop_raises self pending w =
     (let f = futures w ! self in
      if task_status f = INIT then
        (case event_handler f of
           None \<Rightarrow> (Some AttributeError, w)
         | Some h \<Rightarrow>
             if is_terminal h then
               (let w1 = update_future self (\<lambda>f. f\<lparr>task_status := DONE\<rparr>) w
                in case cancel_callback f of
                     None \<Rightarrow> (pending, w1)
                   | Some On_task_deleted \<Rightarrow>
                       (case on_task_deleted stop_raises self (emit (Cancel_callback self) w1) of
                          (Some e, w2) \<Rightarrow> (Some e, w2)
                        | (None, w2) \<Rightarrow> (pending, w2)))
             else (pending, w))
      else (pending, w))"

definition launch_failed_callback ::
  "env \<Rightarrow> py_exception option \<Rightarrow> nat \<Rightarrow> task_outcome \<Rightarrow> string \<Rightarrow> bool \<Rightarrow> world
     \<Rightarrow> py_exception option \<times> world" where
  "launch_failed_callback ev stop_raises self task cause cancel_on_done w =
     (let (pending, error_cause, w1) = callback_try ev self task cause cancel_on_done w;
          w2 = emit (Log_warning (cause @ '' coroutine finished with '' @ error_cause @ ''.'')) w1
      in callback_finally stop_raises self pending w2)"

text \<open>\<^verbatim>\<open>SkyTaskTracker.try_first_register\<close> and \<^verbatim>\<open>register_sky_task\<close>.\<close>

definition try_first_register :: "env \<Rightarrow> TaskTemplate \<Rightarrow> world \<Rightarrow> world" where
  "try_first_register ev task_template w =
     (if JOB_RESIGTRY w \<noteq> [] then w
      else
        (let w1 = emit Setup_cloud_credential w;
             w2 = w1\<lparr>tracker_sky_path_setting :=
                        Some \<lparr>task_level_prefix = raw_output_data_prefix task_template,
                              sky_unique_id = hostname ev\<rparr>\<rparr>;
             (t, w3) = create_task Zip_and_upload w2;
             w4 = w3\<lparr>zip_coro := Some t\<rparr>
         in add_done_callback t Zip_failed_callback w4))"

definition register_sky_task ::
  "env \<Rightarrow> TaskTemplate \<Rightarrow> world \<Rightarrow> (py_exception + nat) \<times> world" where
  "register_sky_task ev task_template w =
     (let w1 = try_first_register ev task_template w;
          new_task = length (futures w1);
          f = SkyTaskFuture_init ev task_template;
          w2 = w1\<lparr>futures := futures w1 @ [f]\<rparr>
      in case tracker_sky_path_setting w2 of
           None \<Rightarrow> (Inl AttributeError, w2)
         | Some sp \<Rightarrow>
             if task_exists sp (unique_id (sky_path_setting f)) w2 then
               (Inr new_task,
                emit (Log_warning (task_name f @ '' task has already been created.'')) w2)
             else
               (let w3 = touch_task sp (unique_id (sky_path_setting f)) w2;
                    w4 = start new_task (Some On_task_deleted) w3
                in (Inr new_task,
                    w4\<lparr>JOB_RESIGTRY := dict_set (task_name f) new_task (JOB_RESIGTRY w4)\<rparr>)))"

subsection \<open>The event loop acting on controllers\<close>

text \<open>
  What can happen to a started controller: one of its coroutines ends, and the loop calls
  the done-callback bound to it (cause and \<^verbatim>\<open>cancel_on_done\<close> as bound by \<^verbatim>\<open>start\<close>, with
  what \<^verbatim>\<open>sky.stop\<close> would do if the callback came to call it), or \<^verbatim>\<open>cancel\<close> is called.
  An exception that leaves a done-callback is handed to the loop's exception handler;
  the world stays as the callback left it.
\<close>

datatype event =
    Coroutine_done nat string bool task_outcome "py_exception option"
  | Cancel_called nat

fun step :: "env \<Rightarrow> event \<Rightarrow> world \<Rightarrow> world" where
  "step ev (Coroutine_done self cause cancel_on_done task stop_raises) w =
     snd (launch_failed_callback ev stop_raises self task cause cancel_on_done w)"
| "step ev (Cancel_called self) w = snd (cancel self w)"

fun run :: "env \<Rightarrow> event list \<Rightarrow> world \<Rightarrow> world" where
  "run ev [] w = w"
| "run ev (e # es) w = run ev es (step ev e w)"

definition effects_since :: "world \<Rightarrow> world \<Rightarrow> effect list" where
  "effects_since w w' = drop (length (trace w)) (trace w')"

definition teardown_count :: "nat \<Rightarrow> world \<Rightarrow> nat" where
  "teardown_count self w = count_list (trace w) (Cancel_callback self)"

text \<open>
  The invariant of a controller that was started with the tracker's callback: it is in
  status \<^verbatim>\<open>INIT\<close> and its callback was never called, or it is in status \<^verbatim>\<open>DONE\<close> and its
  callback was called once.
\<close>

definition tracked :: "nat \<Rightarrow> world \<Rightarrow> bool" where
  "tracked a w \<longleftrightarrow>
     a < length (futures w) \<and> cancel_callback (futures w ! a) = Some On_task_deleted \<and>
     (task_status (futures w ! a) = INIT \<and> teardown_count a w = 0 \<or>
      task_status (futures w ! a) = DONE \<and> teardown_count a w = 1)"

subsection \<open>WrappedProcess and BlockingProcessHandler\<close>

text \<open>
  What the target of the worker does: it returns, it raises an exception that is an
  instance of \<^verbatim>\<open>Exception\<close>, or it raises one that is not (a \<^verbatim>\<open>BaseException\<close> such as
  \<^verbatim>\<open>SystemExit\<close> or \<^verbatim>\<open>KeyboardInterrupt\<close>, given by its name).
\<close>

datatype target_outcome =
    Target_returned
  | Target_raised py_exception
  | Target_raised_base string

datatype process_call = Terminate | Join | Close

text \<open>
  What lies in the pipe: a message that \<^verbatim>\<open>recv\<close> returns, or one on which \<^verbatim>\<open>recv\<close> raises
  while unpickling.
\<close>

datatype wire = Wire "(py_exception \<times> string) option" | Wire_unreadable py_exception

text \<open>
  The parent's view of a \<^verbatim>\<open>WrappedProcess\<close>: the messages the child has sent and the
  parent has not yet received from \<^verbatim>\<open>_pconn\<close>, the attribute \<^verbatim>\<open>_exception\<close>, and the calls
  \<^verbatim>\<open>clean_up\<close> makes on the process.
\<close>

record WrappedProcess =
  pconn :: "wire list"
  exception_attr :: "(py_exception \<times> string) option"
  calls :: "process_call list"

definition WrappedProcess_init :: WrappedProcess where
  "WrappedProcess_init = \<lparr>pconn = [], exception_attr = None, calls = []\<rparr>"

text \<open>
  \<^verbatim>\<open>WrappedProcess.run\<close>, in the child. When the target returns, \<^verbatim>\<open>None\<close> is sent. An
  exception that is an \<^verbatim>\<open>Exception\<close> is caught and sent with \<^verbatim>\<open>traceback.format_exc()\<close>;
  when \<^verbatim>\<open>send\<close> cannot pickle the pair it raises inside the handler, and nothing is sent.
  An exception that is not an \<^verbatim>\<open>Exception\<close> passes \<^verbatim>\<open>except Exception\<close>, and nothing is
  sent. In the last two cases the child ends with the exception.
\<close>

definition WrappedProcess_run :: "env \<Rightarrow> target_outcome \<Rightarrow> WrappedProcess \<Rightarrow> WrappedProcess" where
  "WrappedProcess_run ev target p =
     (case target of
        Target_returned \<Rightarrow> p\<lparr>pconn := pconn p @ [Wire None]\<rparr>
      | Target_raised e \<Rightarrow>
          (case pickling ev e of
             Crosses \<Rightarrow> p\<lparr>pconn := pconn p @ [Wire (Some (e, format_exc ev e))]\<rparr>
           | Send_fails \<Rightarrow> p
           | Recv_fails err \<Rightarrow> p\<lparr>pconn := pconn p @ [Wire_unreadable err]\<rparr>)
      | Target_raised_base b \<Rightarrow> p)"

text \<open>
  The property \<^verbatim>\<open>WrappedProcess.exception\<close>: it receives when the pipe has data, and
  \<^verbatim>\<open>recv\<close> consumes the message also when it raises.
\<close>

definition exception ::
  "WrappedProcess \<Rightarrow> (py_exception + (py_exception \<times> string) option) \<times> WrappedProcess" where
  "exception p =
     (case pconn p of
        [] \<Rightarrow> (Inr (exception_attr p), p)
      | Wire m # ms \<Rightarrow> (Inr m, p\<lparr>pconn := ms, exception_attr := m\<rparr>)
      | Wire_unreadable err # ms \<Rightarrow> (Inl err, p\<lparr>pconn := ms\<rparr>))"

definition clean_up :: "WrappedProcess \<Rightarrow> WrappedProcess" where
  "clean_up p = p\<lparr>calls := calls p @ [Terminate, Join, Close]\<rparr>"

text \<open>
  \<^verbatim>\<open>BlockingProcessHandler.status_poller\<close>. The coroutine sees the worker and the event
  handler only at its loop test and after each sleep, so a run is driven by what it
  sees there: \<open>Still_running h\<close> is a loop test that finds \<^verbatim>\<open>exitcode\<close> \<^verbatim>\<open>None\<close>, followed by a
  sleep after which the event handler is \<open>h\<close>; \<open>Exited h\<close> is a loop test that finds an
  exit code, the event handler being \<open>h\<close>. The process argument holds what the child has
  sent by the time the parent reads the pipe. \<open>None\<close> means that the coroutine is still in
  its loop when the observations end. An exception raised by the property \<^verbatim>\<open>exception\<close>
  leaves the coroutine at once, before \<^verbatim>\<open>clean_up\<close>.
\<close>

datatype tick = Still_running EventHandler | Exited EventHandler

datatype poll_result = Poll_returned | Poll_raised py_exception

fun status_poller ::
  "tick list \<Rightarrow> WrappedProcess \<Rightarrow> (poll_result \<times> WrappedProcess \<times> EventHandler) option" where
  "status_poller [] p = None"
| "status_poller (Still_running h # ts) p =
     (if is_terminal h then Some (Poll_returned, clean_up p, h) else status_poller ts p)"
| "status_poller (Exited h # ts) p =
     (let (r1, p1) = exception p in
      case r1 of
        Inl err \<Rightarrow> Some (Poll_raised err, p1, h)
      | Inr e1 \<Rightarrow>
          (case e1 of
             Some x \<Rightarrow>
               (let (r2, p2) = exception p1 in
                case r2 of
                  Inl err \<Rightarrow> Some (Poll_raised err, p2, h)
                | Inr launch_exception \<Rightarrow>
                    (let p3 = clean_up p2
                     in case launch_exception of
                          Some (e, tb) \<Rightarrow> Some (Poll_raised (Exception_pair e tb), p3, h)
                        | None \<Rightarrow> Some (Poll_returned, p3, h)))
           | None \<Rightarrow> Some (Poll_returned, clean_up p1, h\<lparr>launch_done_event := True\<rparr>)))"

subsection \<open>SkyPilotAgent\<close>

record SkyPilotMetadata =
  job_name :: string
  meta_cluster_name :: string
  task_metadata_prefix :: string
  tracker_hostname :: string
  job_launch_type :: JobLaunchType

text \<open>
  \<^verbatim>\<open>remote_deletion\<close>: when the remote agent is not alive the cluster is torn down with
  \<^verbatim>\<open>sky.down\<close> in a one-process pool; then the deletion marker is uploaded.
\<close>

definition remote_deletion ::
  "datetime \<Rightarrow> datetime option \<Rightarrow> SkyPilotMetadata \<Rightarrow> world \<Rightarrow> world" where
  "remote_deletion utc_time last_upload_time resource_meta w =
     (let w1 = (if \<not> check_remote_agent_alive utc_time last_upload_time
                then emit (Sky_down (meta_cluster_name resource_meta)) w else w)
      in emit (Upload_delete_proto (job_name resource_meta)) w1)"

text \<open>\<^verbatim>\<open>SkyPilotAgent.delete\<close>.\<close>

definition delete ::
  "datetime \<Rightarrow> datetime option \<Rightarrow> SkyPilotMetadata \<Rightarrow> world \<Rightarrow> py_exception option \<times> world" where
  "delete utc_time last_upload_time resource_meta w =
     (case map_of (JOB_RESIGTRY w) (job_name resource_meta) of
        None \<Rightarrow> (None, remote_deletion utc_time last_upload_time resource_meta w)
      | Some existed_task \<Rightarrow> cancel existed_task w)"

text \<open>\<^verbatim>\<open>SkyPilotAgent.create\<close>.\<close>

definition create ::
  "env \<Rightarrow> TaskTemplate \<Rightarrow> world \<Rightarrow> (py_exception + SkyPilotMetadata) \<times> world" where
  "create ev task_template w =
     (case register_sky_task ev task_template w of
        (Inl e, w') \<Rightarrow> (Inl e, w')
      | (Inr task, w') \<Rightarrow>
          (Inr \<lparr>job_name = task_name (futures w' ! task),
                meta_cluster_name = cluster_name (futures w' ! task),
                task_metadata_prefix = file_access (sky_path_setting (futures w' ! task)),
                tracker_hostname = hostname ev,
                job_launch_type = custom_job_launch_type task_template\<rparr>, w'))"

text \<open>
  Modelled from the spec: the normalized phases PENDING, RUNNING, SUCCEEDED, FAILED,
  ABORTED of the host SDK.
\<close>

datatype Phase = PENDING | PHASE_RUNNING | SUCCEEDED | FAILED | ABORTED

record 'o Resource =
  phase :: Phase
  outputs :: "'o option"
  message :: "string option"

text \<open>
  \<^verbatim>\<open>query_job_status\<close> and \<^verbatim>\<open>SkyPilotAgent.get\<close>. Three things come from the utils module
  and are parameters: \<open>read_status\<close>, what \<^verbatim>\<open>sky_path_setting.get_task_status().task_status\<close>
  yields for the metadata (a value, or the exception it raises);
  \<open>LAUNCH_TYPE_TO_SKY_STATUS\<close>, the dict from launch type to the constructor of the
  provisioner's status enumeration (the constructor raises on a value it does not know);
  \<open>skypilot_status_to_flyte_phase\<close>. The log line of \<^verbatim>\<open>get\<close> does not bear on its result.
\<close>

definition query_job_status ::
  "(JobLaunchType \<times> ('raw \<Rightarrow> py_exception + 'st)) list \<Rightarrow>
   (SkyPilotMetadata \<Rightarrow> py_exception + 'raw) \<Rightarrow> SkyPilotMetadata \<Rightarrow> py_exception + 'st" where
  "query_job_status LAUNCH_TYPE_TO_SKY_STATUS read_status resource_meta =
     (case read_status resource_meta of
        Inl e \<Rightarrow> Inl e
      | Inr status_value \<Rightarrow>
          (case map_of LAUNCH_TYPE_TO_SKY_STATUS (job_launch_type resource_meta) of
             None \<Rightarrow> Inl (KeyError ''job_launch_type'')
           | Some ctor \<Rightarrow> ctor status_value))"

definition get ::
  "(JobLaunchType \<times> ('raw \<Rightarrow> py_exception + 'st)) list \<Rightarrow>
   (SkyPilotMetadata \<Rightarrow> py_exception + 'raw) \<Rightarrow> ('st \<Rightarrow> py_exception + Phase) \<Rightarrow>
   SkyPilotMetadata \<Rightarrow> py_exception + 'o Resource" where
  "get LAUNCH_TYPE_TO_SKY_STATUS read_status skypilot_status_to_flyte_phase resource_meta =
     (case query_job_status LAUNCH_TYPE_TO_SKY_STATUS read_status resource_meta of
        Inl e \<Rightarrow> Inl e
      | Inr job_status \<Rightarrow>
          (case skypilot_status_to_flyte_phase job_status of
             Inl e \<Rightarrow> Inl e
           | Inr ph \<Rightarrow> Inr \<lparr>phase = ph, outputs = None, message = None\<rparr>))"

subsection \<open>Concrete inputs\<close>

text \<open>
  An instance of the outside parameters, two status tables, and the world of a process
  that has just started over an empty object store. The theorems below are run on them.
\<close>

definition example_from_task_prefix ::
  "string \<Rightarrow> JobLaunchType \<Rightarrow> string \<Rightarrow> string \<Rightarrow> TaskRemotePathSetting" where
  "example_from_task_prefix prefix jt cn task_prefix =
     \<lparr>file_access = prefix, job_type = jt, path_cluster_name = cn,
      path_task_name = task_prefix @ ''.1'', unique_id = task_prefix,
      remote_error_log = prefix @ ''/error.log''\<rparr>"

definition example_format_exc :: "py_exception \<Rightarrow> string" where
  "example_format_exc e = ''Traceback (most recent call last): ...''"

text \<open>
  In the instance a \<^verbatim>\<open>ValueError\<close> stands for an exception that cannot be pickled and a
  \<^verbatim>\<open>KeyError\<close> for one that cannot be unpickled; the others cross the pipe.
\<close>

fun example_pickling :: "py_exception \<Rightarrow> crossing" where
  "example_pickling (ValueError m) = Send_fails"
| "example_pickling (KeyError m) = Recv_fails (RuntimeError ''unpickling failed'')"
| "example_pickling e = Crosses"

definition example_env :: env where
  "example_env =
     \<lparr>JOB_CONTROLLER_NAME = ''sky-jobs-controller'', hostname = ''a1b2'',
      format_exc = example_format_exc, pickling = example_pickling,
      from_task_prefix = example_from_task_prefix\<rparr>"

definition example_task :: "string \<Rightarrow> string \<Rightarrow> TaskTemplate" where
  "example_task prefix name =
     \<lparr>raw_output_data_prefix = prefix, custom_job_launch_type = INTERACTIVE,
      custom_cluster_name = ''c2'', custom_task_name = name\<rparr>"

definition empty_world :: world where
  "empty_world =
     \<lparr>futures = [], JOB_RESIGTRY = [], tracker_sky_path_setting = None, zip_coro = None,
      tasks = [], procs = [], markers = {}, trace = []\<rparr>"

text \<open>
  The world after one job has been registered in a fresh process, and after a second job
  on the same cluster has been registered too.
\<close>

definition started_world :: world where
  "started_world =
     snd (register_sky_task example_env (example_task ''s3://b/j1'' ''t1'') empty_world)"

definition two_jobs_world :: world where
  "two_jobs_world =
     snd (register_sky_task example_env (example_task ''s3://b/j1'' ''t2'') started_world)"

text \<open>
  The world in which the teardown callback of controller \<open>a\<close> is called when, after
  \<^verbatim>\<open>cancel\<close>, its launch coroutine is the first to end, and the world after the first
  of the two jobs has been torn down in this way.
\<close>

definition at_teardown :: "nat \<Rightarrow> world \<Rightarrow> world" where
  "at_teardown a w =
     emit (Cancel_callback a)
       (update_future a (\<lambda>f. f\<lparr>task_status := DONE\<rparr>)
          (emit (Log_warning ''launch coroutine finished with None.'') (snd (cancel a w))))"

definition after_first_teardown :: world where
  "after_first_teardown = snd (on_task_deleted None 0 (at_teardown 0 two_jobs_world))"


text \<open>
  The world after the first job has been registered a second time in the same process,
  and a fresh process over an object store in which another process has left the marker
  of that job.
\<close>

definition registered_twice_world :: world where
  "registered_twice_world =
     snd (register_sky_task example_env (example_task ''s3://b/j1'' ''t1'') started_world)"

definition marked_world :: world where
  "marked_world = empty_world\<lparr>markers := {(''s3://b/j1'', ''a1b2'', ''t1'')}\<rparr>"

definition example_meta :: "string \<Rightarrow> SkyPilotMetadata" where
  "example_meta name =
     \<lparr>job_name = name, meta_cluster_name = ''c2'', task_metadata_prefix = ''s3://b/j1'',
      tracker_hostname = ''a1b2'', job_launch_type = INTERACTIVE\<rparr>"

text \<open>
  A status enumeration that knows the values \<open>''RUNNING''\<close> and \<open>''SUCCEEDED''\<close> and
  raises \<^verbatim>\<open>ValueError\<close> on any other, as the constructor of a Python \<^verbatim>\<open>Enum\<close> does; a store
  whose status file holds \<open>''BOGUS''\<close>; a phase mapping.
\<close>

definition example_ctor :: "string \<Rightarrow> py_exception + string" where
  "example_ctor v = (if v = ''RUNNING'' \<or> v = ''SUCCEEDED'' then Inr v else Inl (ValueError v))"

definition example_table :: "(JobLaunchType \<times> (string \<Rightarrow> py_exception + string)) list" where
  "example_table = [(MANAGED, example_ctor), (INTERACTIVE, example_ctor)]"

definition example_read_bogus :: "SkyPilotMetadata \<Rightarrow> py_exception + string" where
  "example_read_bogus m = Inr ''BOGUS''"

definition example_read_running :: "SkyPilotMetadata \<Rightarrow> py_exception + string" where
  "example_read_running m = Inr ''RUNNING''"

definition example_to_phase :: "string \<Rightarrow> py_exception + Phase" where
  "example_to_phase s = (if s = ''RUNNING'' then Inr PHASE_RUNNING else Inr SUCCEEDED)"

section \<open>Theorems\<close>

subsection \<open>Helper lemmas\<close>

lemma status_poller_not_terminal_prefix:
  "\<forall>h \<in> set hs. \<not> is_terminal h \<Longrightarrow>
   status_poller (map Still_running hs @ ts) p = status_poller ts p"
  by (induction hs) simp_all

lemma map_list_update_same:
  "f y = f (xs ! a) \<Longrightarrow> map f (xs[a := y]) = map f xs"
  by (cases "a < length xs") (auto simp: list_eq_iff_nth_eq nth_list_update not_less)

subsection \<open>The launch worker and its supervising coroutine\<close>

text \<open>
  C9. Whenever the supervising coroutine sees a terminal signal (failed, cancel or
  finished) after a sleep, the worker not having been seen to exit at any loop test
  before, it returns, and before returning it has called \<^verbatim>\<open>terminate\<close>, \<^verbatim>\<open>join\<close> and
  \<^verbatim>\<open>close\<close> on the worker process, in this order and once each; whatever would be seen
  later plays no part.
\<close>

theorem status_poller_terminal_cleans_up:
  assumes "\<forall>h \<in> set hs. \<not> is_terminal h" and "is_terminal ht"
  shows "status_poller (map Still_running hs @ Still_running ht # rest) p =
           Some (Poll_returned, p\<lparr>calls := calls p @ [Terminate, Join, Close]\<rparr>, ht)"
  using assms by (simp add: status_poller_not_terminal_prefix clean_up_def)

text \<open>C9, at a concrete run: one quiet sleep, then \<^verbatim>\<open>cancel\<close> is seen.\<close>

theorem status_poller_terminal_cleans_up_witness:
  "status_poller
     [Still_running EventHandler_init, Still_running (EventHandler_init\<lparr>cancel_event := True\<rparr>),
      Exited EventHandler_init] WrappedProcess_init =
   Some (Poll_returned, WrappedProcess_init\<lparr>calls := [Terminate, Join, Close]\<rparr>,
         EventHandler_init\<lparr>cancel_event := True\<rparr>)"
  using status_poller_terminal_cleans_up
    [of "[EventHandler_init]" "EventHandler_init\<lparr>cancel_event := True\<rparr>"
        "[Exited EventHandler_init]" WrappedProcess_init]
  by (simp add: is_terminal_def EventHandler_init_def WrappedProcess_init_def)

text \<open>
  C6 (as the code has it). Let the supervising coroutine find the worker exited at its
  loop test, no terminal signal having been seen after any sleep before. If the target
  raised an exception that is an instance of \<^verbatim>\<open>Exception\<close> and whose pair with the text
  of its traceback pickles and unpickles, the parent receives this pair from the pipe,
  and the coroutine cleans up and raises an \<^verbatim>\<open>Exception\<close> that carries the pair, leaving
  \<^verbatim>\<open>launch_done\<close> alone. If the target returned, the coroutine sets \<^verbatim>\<open>launch_done\<close>, cleans
  up and returns. If the target raised an exception that is not an \<^verbatim>\<open>Exception\<close>, or one
  that \<^verbatim>\<open>send\<close> cannot pickle, nothing was sent, and the coroutine does as if the target
  had returned. If \<^verbatim>\<open>recv\<close> cannot unpickle the message, the coroutine raises that error
  and does not clean up. And whatever the target did, if a terminal signal is seen after
  a sleep first, the coroutine cleans up and returns: the pipe is not read, nothing is
  raised and \<^verbatim>\<open>launch_done\<close> is not set.
\<close>

theorem status_poller_propagates:
  assumes "\<forall>h' \<in> set hs. \<not> is_terminal h'"
  shows "status_poller (map Still_running hs @ Exited h # rest)
             (WrappedProcess_run ev target WrappedProcess_init) =
           (case target of
              Target_returned \<Rightarrow>
                Some (Poll_returned,
                      \<lparr>pconn = [], exception_attr = None, calls = [Terminate, Join, Close]\<rparr>,
                      h\<lparr>launch_done_event := True\<rparr>)
            | Target_raised e \<Rightarrow>
                (case pickling ev e of
                   Crosses \<Rightarrow>
                     Some (Poll_raised (Exception_pair e (format_exc ev e)),
                           \<lparr>pconn = [], exception_attr = Some (e, format_exc ev e),
                            calls = [Terminate, Join, Close]\<rparr>, h)
                 | Send_fails \<Rightarrow>
                     Some (Poll_returned,
                           \<lparr>pconn = [], exception_attr = None,
                            calls = [Terminate, Join, Close]\<rparr>,
                           h\<lparr>launch_done_event := True\<rparr>)
                 | Recv_fails err \<Rightarrow>
                     Some (Poll_raised err,
                           \<lparr>pconn = [], exception_attr = None, calls = []\<rparr>, h))
            | Target_raised_base b \<Rightarrow>
                Some (Poll_returned,
                      \<lparr>pconn = [], exception_attr = None, calls = [Terminate, Join, Close]\<rparr>,
                      h\<lparr>launch_done_event := True\<rparr>)) \<and>
         (pickling ev e = Crosses \<longrightarrow>
            fst (exception (WrappedProcess_run ev (Target_raised e) WrappedProcess_init)) =
              Inr (Some (e, format_exc ev e))) \<and>
         (is_terminal ht \<longrightarrow>
            status_poller (map Still_running hs @ Still_running ht # rest)
                (WrappedProcess_run ev target WrappedProcess_init) =
              Some (Poll_returned,
                    (WrappedProcess_run ev target WrappedProcess_init)
                      \<lparr>calls := [Terminate, Join, Close]\<rparr>, ht))"
  using assms
  by (simp add: status_poller_not_terminal_prefix clean_up_def WrappedProcess_run_def
      WrappedProcess_init_def exception_def split: target_outcome.splits crossing.splits)

text \<open>
  C6, at concrete runs with one quiet sleep before the exit is seen: the target raises
  a \<^verbatim>\<open>RuntimeError\<close>, which crosses the pipe, and the target raises \<^verbatim>\<open>SystemExit\<close>; and
  the first run again with \<^verbatim>\<open>cancel\<close> seen after the second sleep.
\<close>

theorem status_poller_propagates_witness:
  "status_poller [Still_running EventHandler_init, Exited EventHandler_init]
     (WrappedProcess_run example_env (Target_raised (RuntimeError ''boom'')) WrappedProcess_init) =
   Some (Poll_raised (Exception_pair (RuntimeError ''boom'') ''Traceback (most recent call last): ...''),
         \<lparr>pconn = [], exception_attr = Some (RuntimeError ''boom'', ''Traceback (most recent call last): ...''),
          calls = [Terminate, Join, Close]\<rparr>, EventHandler_init) \<and>
   status_poller [Still_running EventHandler_init, Exited EventHandler_init]
     (WrappedProcess_run example_env (Target_raised_base ''SystemExit'') WrappedProcess_init) =
   Some (Poll_returned, \<lparr>pconn = [], exception_attr = None, calls = [Terminate, Join, Close]\<rparr>,
         EventHandler_init\<lparr>launch_done_event := True\<rparr>) \<and>
   status_poller [Still_running EventHandler_init,
                  Still_running (EventHandler_init\<lparr>cancel_event := True\<rparr>)]
     (WrappedProcess_run example_env (Target_raised (RuntimeError ''boom'')) WrappedProcess_init) =
   Some (Poll_returned,
         \<lparr>pconn = [Wire (Some (RuntimeError ''boom'', ''Traceback (most recent call last): ...''))],
          exception_attr = None, calls = [Terminate, Join, Close]\<rparr>,
         EventHandler_init\<lparr>cancel_event := True\<rparr>)"
  using status_poller_propagates
    [where hs = "[EventHandler_init]" and ev = example_env
       and target = "Target_raised (RuntimeError ''boom'')" and e = "RuntimeError ''boom''"
       and h = EventHandler_init and rest = "[]"
       and ht = "EventHandler_init\<lparr>cancel_event := True\<rparr>"]
    status_poller_propagates
    [where hs = "[EventHandler_init]" and ev = example_env
       and target = "Target_raised_base ''SystemExit''" and e = "RuntimeError ''boom''"
       and h = EventHandler_init and rest = "[]"
       and ht = "EventHandler_init\<lparr>cancel_event := True\<rparr>"]
  by (simp add: is_terminal_def EventHandler_init_def example_env_def example_format_exc_def
      WrappedProcess_run_def WrappedProcess_init_def)

text \<open>
  C6 (counterexample to the claim as stated). The worker has raised and sent its
  exception; the loop test before had still found it running, and after the sleep
  \<^verbatim>\<open>cancel\<close> is set. The coroutine cleans up and returns: nothing is raised, the message
  stays unread in the pipe, and \<^verbatim>\<open>launch_done\<close> is not set.
\<close>

theorem status_poller_drops_exception:
  "status_poller [Still_running (EventHandler_init\<lparr>cancel_event := True\<rparr>)]
     (WrappedProcess_run example_env (Target_raised (RuntimeError ''boom'')) WrappedProcess_init) =
   Some (Poll_returned,
         \<lparr>pconn = [Wire (Some (RuntimeError ''boom'', ''Traceback (most recent call last): ...''))],
          exception_attr = None, calls = [Terminate, Join, Close]\<rparr>,
         EventHandler_init\<lparr>cancel_event := True\<rparr>)"
  by (simp add: is_terminal_def EventHandler_init_def example_env_def example_format_exc_def
      WrappedProcess_run_def WrappedProcess_init_def clean_up_def)

subsection \<open>Starting a controller\<close>

text \<open>
  C5 (as the code has it). \<^verbatim>\<open>start\<close> starts one worker process and creates three tasks,
  the poller of the launch worker, the deletion-status poller and the status-upload
  loop, each with \<^verbatim>\<open>launch_failed_callback\<close> as done-callback; it leaves the status of
  every controller as it was, so a controller started after construction is still
  \<^verbatim>\<open>INIT\<close>.
\<close>

theorem start_spawns_three:
  "tasks (start self cb w) =
     tasks w @ [(Status_poller (length (procs w)), [Launch_failed_callback self ''launch'' False]),
                (Deletion_status self, [Launch_failed_callback self ''deletion status'' True]),
                (Put_task_status self, [Launch_failed_callback self ''upload status'' True])] \<and>
   procs (start self cb w) = procs w @ [self] \<and>
   map task_status (futures (start self cb w)) = map task_status (futures w)"
  by (cases "self < length (futures w)")
     (simp_all add: start_def launch_process_wrapper_def create_task_def add_done_callback_def
      update_future_def Let_def nth_append map_list_update_same not_less list_update_beyond)

text \<open>
  C5 (counterexample to the claim as stated). A controller built from a task template
  and started is in status \<^verbatim>\<open>INIT\<close>, not \<^verbatim>\<open>LAUNCHING\<close>.
\<close>

theorem start_keeps_init:
  "task_status
     (futures (start 0 (Some On_task_deleted)
        (empty_world\<lparr>futures := [SkyTaskFuture_init example_env (example_task ''s3://b/j1'' ''t'')]\<rparr>)) ! 0)
   = INIT \<and>
   task_status
     (futures (start 0 (Some On_task_deleted)
        (empty_world\<lparr>futures := [SkyTaskFuture_init example_env (example_task ''s3://b/j1'' ''t'')]\<rparr>)) ! 0)
   \<noteq> LAUNCHING"
  by (simp add: start_def launch_process_wrapper_def create_task_def add_done_callback_def
      update_future_def Let_def empty_world_def SkyTaskFuture_init_def)

subsection \<open>Get\<close>

text \<open>
  C8 (as the code has it). \<^verbatim>\<open>get\<close> handles no failure: every resource it returns has
  message \<^verbatim>\<open>None\<close> and no outputs, and an exception raised while the remote status is
  read or decoded, or by the phase mapping, leaves \<^verbatim>\<open>get\<close> as it is.
\<close>

theorem get_propagates:
  "(get tbl rd to_phase m = Inr (r :: 'o Resource) \<longrightarrow> message r = None \<and> outputs r = None) \<and>
   (query_job_status tbl rd m = Inl e \<longrightarrow> (get tbl rd to_phase m :: py_exception + 'o Resource) = Inl e) \<and>
   (query_job_status tbl rd m = Inr s \<and> to_phase s = Inl e \<longrightarrow>
      (get tbl rd to_phase m :: py_exception + 'o Resource) = Inl e)"
  by (auto simp: get_def split: sum.splits)

text \<open>C8, at concrete inputs: a known status, and a status the enumeration does not know.\<close>

theorem get_propagates_witness:
  "(get example_table example_read_running example_to_phase (example_meta ''t.1'')
      :: py_exception + unit Resource) =
     Inr \<lparr>phase = PHASE_RUNNING, outputs = None, message = None\<rparr> \<and>
   (get example_table example_read_bogus example_to_phase (example_meta ''t.1'')
      :: py_exception + unit Resource) = Inl (ValueError ''BOGUS'')"
  using get_propagates [of example_table example_read_running example_to_phase "example_meta ''t.1''"
      "\<lparr>phase = PHASE_RUNNING, outputs = None :: unit option, message = None\<rparr>"
      "ValueError ''BOGUS''" "''x''"]
    get_propagates [of example_table example_read_bogus example_to_phase "example_meta ''t.1''"
      "\<lparr>phase = PHASE_RUNNING, outputs = None :: unit option, message = None\<rparr>"
      "ValueError ''BOGUS''" "''x''"]
  by (simp add: get_def query_job_status_def example_table_def example_ctor_def
      example_read_running_def example_read_bogus_def example_to_phase_def example_meta_def)

text \<open>
  C8 (counterexample to the claim as stated). The status file holds a value the status
  enumeration does not know: \<^verbatim>\<open>get\<close> raises the constructor's \<^verbatim>\<open>ValueError\<close>; it does not
  return a resource with phase \<^verbatim>\<open>FAILED\<close> and a message.
\<close>

theorem get_raises_on_unknown_status:
  "(get example_table example_read_bogus example_to_phase (example_meta ''t.1'')
      :: py_exception + unit Resource) = Inl (ValueError ''BOGUS'')"
  by (simp add: get_def query_job_status_def example_table_def example_ctor_def
      example_read_bogus_def example_meta_def)

subsection \<open>Frame lemmas for the done-callback\<close>

lemma futures_emit [simp]: "futures (emit e w) = futures w"
  by (simp add: emit_def)

lemma trace_emit [simp]: "trace (emit e w) = trace w @ [e]"
  by (simp add: emit_def)

lemma futures_delete_task [simp]: "futures (delete_task sp u w) = futures w"
  by (simp add: delete_task_def)

lemma trace_delete_task [simp]:
  "trace (delete_task sp u w) = trace w @ [Delete_task (marker_of sp u)]"
  by (simp add: delete_task_def)

lemma trace_update_future [simp]: "trace (update_future a g w) = trace w"
  by (simp add: update_future_def)

lemma futures_on_task_deleted [simp]:
  "futures (snd (on_task_deleted sr d w)) = futures w"
  by (simp add: on_task_deleted_def Let_def split: option.splits)

lemma teardown_count_on_task_deleted [simp]:
  "teardown_count a (snd (on_task_deleted sr d w)) = teardown_count a w"
  by (simp add: on_task_deleted_def teardown_count_def Let_def split: option.splits)

lemma trace_set_event [simp]: "trace (snd (set_event a g w)) = trace w"
  by (simp add: set_event_def split: option.splits)

lemma status_set_event [simp]:
  "task_status (futures (snd (set_event b g w)) ! a) = task_status (futures w ! a)"
  by (cases "b < length (futures w)")
     (auto simp: set_event_def update_future_def nth_list_update not_less list_update_beyond
           split: option.splits)

lemma callback_set_event [simp]:
  "cancel_callback (futures (snd (set_event b g w)) ! a) = cancel_callback (futures w ! a)"
  by (cases "b < length (futures w)")
     (auto simp: set_event_def update_future_def nth_list_update not_less list_update_beyond
           split: option.splits)

lemma length_set_event [simp]:
  "length (futures (snd (set_event b g w))) = length (futures w)"
  by (simp add: set_event_def update_future_def split: option.splits)

lemma callback_try_frame:
  "callback_try ev b t c cod w = (pending, cause, w1) \<Longrightarrow>
     task_status (futures w1 ! a) = task_status (futures w ! a) \<and>
     cancel_callback (futures w1 ! a) = cancel_callback (futures w ! a) \<and>
     length (futures w1) = length (futures w) \<and>
     teardown_count a w1 = teardown_count a w"
  by (auto simp: callback_try_def Let_def teardown_count_def split_def
           split: task_outcome.splits if_splits prod.splits)

lemma teardown_count_emit [simp]:
  "teardown_count a (emit e w) = teardown_count a w + (if e = Cancel_callback a then 1 else 0)"
  by (simp add: teardown_count_def)

lemma teardown_count_update_future [simp]:
  "teardown_count a (update_future b g w) = teardown_count a w"
  by (simp add: teardown_count_def)

lemma nth_update_future:
  "futures (update_future b g w) ! a =
     (if a = b \<and> b < length (futures w) then g (futures w ! b) else futures w ! a)"
  by (cases "b < length (futures w)")
     (simp_all add: update_future_def nth_list_update not_less list_update_beyond)

lemma length_update_future [simp]:
  "length (futures (update_future b g w)) = length (futures w)"
  by (simp add: update_future_def)

lemma callback_finally_other:
  "b \<noteq> a \<Longrightarrow>
     task_status (futures (snd (callback_finally sr b pending w)) ! a) = task_status (futures w ! a) \<and>
     cancel_callback (futures (snd (callback_finally sr b pending w)) ! a) = cancel_callback (futures w ! a) \<and>
     length (futures (snd (callback_finally sr b pending w))) = length (futures w) \<and>
     teardown_count a (snd (callback_finally sr b pending w)) = teardown_count a w"
  by (simp add: callback_finally_def Let_def split_def nth_update_future
        split: option.splits callback.splits)

lemma callback_finally_self:
  "tracked a w \<Longrightarrow> tracked a (snd (callback_finally sr a pending w))"
  by (auto simp: tracked_def callback_finally_def Let_def split_def nth_update_future
        split: option.splits callback.splits)

lemma tracked_emit_log [simp]: "tracked a (emit (Log_warning m) w) = tracked a w"
  by (simp add: tracked_def)

lemma callback_try_tracked:
  "tracked a w \<Longrightarrow> tracked a (snd (snd (callback_try ev b t c cod w)))"
  using callback_try_frame [of ev b t c cod w _ _ _ a]
  by (cases "callback_try ev b t c cod w") (simp add: tracked_def)

lemma callback_finally_tracked:
  "tracked a w \<Longrightarrow> tracked a (snd (callback_finally sr b pending w))"
  using callback_finally_self [of a w sr pending] callback_finally_other [of b a sr pending w]
  by (cases "b = a") (simp_all add: tracked_def)

lemma launch_failed_callback_tracked:
  "tracked a w \<Longrightarrow> tracked a (snd (launch_failed_callback ev sr b t c cod w))"
  by (simp add: launch_failed_callback_def split_def Let_def callback_finally_tracked
      callback_try_tracked)

lemma cancel_tracked: "tracked a w \<Longrightarrow> tracked a (snd (cancel b w))"
  by (auto simp: cancel_def tracked_def nth_update_future split: option.splits)

lemma step_tracked: "tracked a w \<Longrightarrow> tracked a (step ev e w)"
  by (cases e) (simp_all add: launch_failed_callback_tracked cancel_tracked)

lemma run_tracked: "tracked a w \<Longrightarrow> tracked a (run ev es w)"
  by (induction es arbitrary: w) (simp_all add: step_tracked)

lemma run_append: "run ev (es @ es') w = run ev es' (run ev es w)"
  by (induction es arbitrary: w) simp_all

lemma callback_finally_done:
  "task_status (futures w ! a) = DONE \<Longrightarrow>
   task_status (futures (snd (callback_finally sr b pending w)) ! a) = DONE"
  by (cases "b = a") (simp_all add: callback_finally_other, simp add: callback_finally_def)

lemma step_done:
  "task_status (futures w ! a) = DONE \<Longrightarrow> task_status (futures (step ev e w) ! a) = DONE"
proof (cases e)
  case (Coroutine_done b c cod t sr)
  assume d: "task_status (futures w ! a) = DONE"
  obtain p ec w1 where ct: "callback_try ev b t c cod w = (p, ec, w1)"
    by (cases "callback_try ev b t c cod w") auto
  from callback_try_frame [OF ct, of a] d have "task_status (futures w1 ! a) = DONE" by simp
  then have "task_status (futures (emit (Log_warning (c @ '' coroutine finished with '' @ ec @ ''.'')) w1) ! a) = DONE"
    by simp
  from callback_finally_done [OF this] show ?thesis
    using Coroutine_done ct by (simp add: launch_failed_callback_def)
next
  case (Cancel_called b)
  assume "task_status (futures w ! a) = DONE"
  then show ?thesis using Cancel_called
    by (auto simp: cancel_def nth_update_future split: option.splits)
qed

lemma run_done:
  "task_status (futures w ! a) = DONE \<Longrightarrow> task_status (futures (run ev es w) ! a) = DONE"
  by (induction es arbitrary: w) (simp_all add: step_done)

lemma handler_on_task_deleted [simp]:
  "event_handler (futures (snd (on_task_deleted sr d w)) ! a) = event_handler (futures w ! a)"
  by simp

lemma callback_finally_terminal:
  assumes "tracked a w"
    and "event_handler (futures (snd (callback_finally sr a pending w)) ! a) = Some h"
    and "is_terminal h"
  shows "teardown_count a (snd (callback_finally sr a pending w)) = 1"
  using assms
  by (auto simp: tracked_def callback_finally_def Let_def split_def nth_update_future
        split: option.splits callback.splits if_splits)

lemma step_terminal:
  assumes "tracked a w"
    and "event_handler (futures (step ev (Coroutine_done a c cod t sr) w) ! a) = Some h"
    and "is_terminal h"
  shows "teardown_count a (step ev (Coroutine_done a c cod t sr) w) = 1"
proof -
  obtain p ec w1 where ct: "callback_try ev a t c cod w = (p, ec, w1)"
    by (cases "callback_try ev a t c cod w") auto
  let ?w2 = "emit (Log_warning (c @ '' coroutine finished with '' @ ec @ ''.'')) w1"
  have st: "step ev (Coroutine_done a c cod t sr) w = snd (callback_finally sr a p ?w2)"
    using ct by (simp add: launch_failed_callback_def)
  have "tracked a w1" using callback_try_tracked [OF assms(1), of ev a t c cod] ct by simp
  then have "tracked a ?w2" by simp
  from callback_finally_terminal [OF this] assms(2,3) show ?thesis
    unfolding st by blast
qed


subsection \<open>The status of a controller and its teardown callback\<close>

text \<open>
  C3. Take a controller that was started with the tracker's teardown callback, is in
  status \<^verbatim>\<open>INIT\<close>, and whose callback has not been called. Whatever coroutines end
  afterwards, in whatever way and order, and whenever \<^verbatim>\<open>cancel\<close> is called, on this
  controller or on others: the teardown callback is called at most once; the status is
  \<^verbatim>\<open>DONE\<close> exactly when it has been called once and \<^verbatim>\<open>INIT\<close> exactly when it has not
  been called; once \<^verbatim>\<open>DONE\<close> the status stays \<^verbatim>\<open>DONE\<close>; and as soon as one done-callback
  of the controller has run with a terminal signal set, one or several, the teardown
  callback has been called exactly once, and so it stays.
\<close>

theorem teardown_exactly_once:
  assumes "self < length (futures w)"
      and "cancel_callback (futures w ! self) = Some On_task_deleted"
      and "task_status (futures w ! self) = INIT"
      and "teardown_count self w = 0"
  shows "teardown_count self (run ev es w) \<le> 1 \<and>
         (task_status (futures (run ev es w) ! self) = DONE) =
           (teardown_count self (run ev es w) = 1) \<and>
         (task_status (futures (run ev es w) ! self) = INIT) =
           (teardown_count self (run ev es w) = 0) \<and>
         (task_status (futures (run ev es w) ! self) = DONE \<longrightarrow>
            task_status (futures (run ev (es @ es') w) ! self) = DONE) \<and>
         (event_handler (futures (run ev (es @ [Coroutine_done self c cod t sr]) w) ! self) = Some h \<and>
          is_terminal h \<longrightarrow>
            teardown_count self (run ev (es @ Coroutine_done self c cod t sr # es') w) = 1)"
proof -
  have t0: "tracked self w" using assms by (simp add: tracked_def)
  have t1: "tracked self (run ev es w)" by (rule run_tracked [OF t0])
  have a: "teardown_count self (run ev es w) \<le> 1" using t1 by (auto simp: tracked_def)
  have b: "(task_status (futures (run ev es w) ! self) = DONE) =
           (teardown_count self (run ev es w) = 1)"
    using t1 by (auto simp: tracked_def)
  have c: "(task_status (futures (run ev es w) ! self) = INIT) =
           (teardown_count self (run ev es w) = 0)"
    using t1 by (auto simp: tracked_def)
  have d: "task_status (futures (run ev es w) ! self) = DONE \<longrightarrow>
            task_status (futures (run ev (es @ es') w) ! self) = DONE"
    by (simp add: run_append run_done)
  have e: "event_handler (futures (run ev (es @ [Coroutine_done self c cod t sr]) w) ! self) = Some h \<and>
          is_terminal h \<longrightarrow>
            teardown_count self (run ev (es @ Coroutine_done self c cod t sr # es') w) = 1"
  proof
    assume h: "event_handler (futures (run ev (es @ [Coroutine_done self c cod t sr]) w) ! self) = Some h \<and>
          is_terminal h"
    let ?w1 = "step ev (Coroutine_done self c cod t sr) (run ev es w)"
    have one: "teardown_count self ?w1 = 1"
      using step_terminal [OF t1, of ev c cod t sr h] h by (simp add: run_append)
    have tr: "tracked self ?w1" by (rule step_tracked [OF t1])
    then have "task_status (futures ?w1 ! self) = DONE" using one by (auto simp: tracked_def)
    then have "task_status (futures (run ev es' ?w1) ! self) = DONE" by (rule run_done)
    moreover have "tracked self (run ev es' ?w1)" by (rule run_tracked [OF tr])
    ultimately have "teardown_count self (run ev es' ?w1) = 1" by (auto simp: tracked_def)
    then show "teardown_count self (run ev (es @ Coroutine_done self c cod t sr # es') w) = 1"
      by (simp add: run_append)
  qed
  from a b c d e show ?thesis by blast
qed

text \<open>
  C3, at a concrete run: the job registered in a fresh process is cancelled, its launch
  fails (so both \<^verbatim>\<open>cancel\<close> and \<^verbatim>\<open>failed\<close> are set), then the two other coroutines end.
\<close>

theorem teardown_exactly_once_witness:
  "0 < length (futures started_world) \<and>
   cancel_callback (futures started_world ! 0) = Some On_task_deleted \<and>
   task_status (futures started_world ! 0) = INIT \<and>
   teardown_count 0 started_world = 0 \<and>
   teardown_count 0
     (run example_env
        ([Cancel_called 0] @
         Coroutine_done 0 ''launch'' False (Task_raised (RuntimeError ''boom'')) None #
         [Coroutine_done 0 ''deletion status'' True Task_returned None,
          Coroutine_done 0 ''upload status'' True Task_cancelled None]) started_world) = 1"
proof -
  have w: "started_world = \<lparr>futures = [\<lparr>task_kwargs = example_task ''s3://b/j1'' ''t1'',
       launch_coro = Some 1, status_check_coro = Some 2, status_upload_coro = Some 3,
       sky_path_setting = example_from_task_prefix ''s3://b/j1'' INTERACTIVE ''c2'' ''t1'',
       task_name = ''t1.1'', cluster_name = ''c2'', cancel_callback = Some On_task_deleted,
       event_handler = Some EventHandler_init, launched_process = Some 0, task_status = INIT\<rparr>],
     JOB_RESIGTRY = [(''t1.1'', 0)],
     tracker_sky_path_setting = Some \<lparr>task_level_prefix = ''s3://b/j1'', sky_unique_id = ''a1b2''\<rparr>,
     zip_coro = Some 0,
     tasks = [(Zip_and_upload, [Zip_failed_callback]),
              (Status_poller 0, [Launch_failed_callback 0 ''launch'' False]),
              (Deletion_status 0, [Launch_failed_callback 0 ''deletion status'' True]),
              (Put_task_status 0, [Launch_failed_callback 0 ''upload status'' True])],
     procs = [0], markers = {(''s3://b/j1'', ''a1b2'', ''t1'')},
     trace = [Setup_cloud_credential, Touch_task (''s3://b/j1'', ''a1b2'', ''t1'')]\<rparr>"
    by (simp add: started_world_def register_sky_task_def try_first_register_def
        SkyTaskFuture_init_def start_def
        launch_process_wrapper_def create_task_def add_done_callback_def update_future_def
        touch_task_def task_exists_def marker_of_def emit_def
        example_env_def example_task_def example_from_task_prefix_def
        empty_world_def Let_def)
  have h: "event_handler (futures (run example_env ([Cancel_called 0] @ [Coroutine_done 0 ''launch'' False (Task_raised (RuntimeError ''boom'')) None]) started_world) ! 0)
      = Some (EventHandler_init\<lparr>failed_event := True, cancel_event := True\<rparr>)"
    unfolding w
    by (simp add: cancel_def launch_failed_callback_def callback_try_def callback_finally_def set_event_def
        on_task_deleted_def running_tasks_on_cluster_def dict_values_def update_future_def
        emit_def delete_task_def marker_of_def is_terminal_def EventHandler_init_def
        example_env_def example_format_exc_def example_from_task_prefix_def Let_def)
  have t: "is_terminal (EventHandler_init\<lparr>failed_event := True, cancel_event := True\<rparr>)"
    by (simp add: is_terminal_def)
  have p: "0 < length (futures started_world) \<and>
   cancel_callback (futures started_world ! 0) = Some On_task_deleted \<and>
   task_status (futures started_world ! 0) = INIT \<and>
   teardown_count 0 started_world = 0"
    unfolding w by (simp add: teardown_count_def)
  from p h t teardown_exactly_once [where self = 0 and w = started_world and ev = example_env
      and es = "[Cancel_called 0]" and c = "''launch''" and cod = False
      and t = "Task_raised (RuntimeError ''boom'')" and sr = None
      and h = "EventHandler_init\<lparr>failed_event := True, cancel_event := True\<rparr>"
      and es' = "[Coroutine_done 0 ''deletion status'' True Task_returned None,
          Coroutine_done 0 ''upload status'' True Task_cancelled None]"]
  show ?thesis by blast
qed

subsection \<open>Teardown in the tracker\<close>

lemma running_tasks_on_cluster_empty:
  "task_status (futures w ! d) \<noteq> INIT \<Longrightarrow>
   (running_tasks_on_cluster d w = []) =
     (\<not> (\<exists>a \<in> set (dict_values (JOB_RESIGTRY w)).
             a \<noteq> d \<and> task_status (futures w ! a) = INIT \<and>
             cluster_name (futures w ! a) = cluster_name (futures w ! d)))"
  by (auto simp: running_tasks_on_cluster_def filter_empty_conv)

lemma effects_since_append [simp]:
  "trace w' = trace w @ es \<Longrightarrow> effects_since w w' = es"
  by (simp add: effects_since_def)

lemma on_task_deleted_trace:
  "tracker_sky_path_setting w = Some sp \<Longrightarrow>
   trace (snd (on_task_deleted sr d w)) =
     trace w @
     (if running_tasks_on_cluster d w = [] then
        [Log_warning (''Stopping cluster '' @ cluster_name (futures w ! d)),
         Sky_stop (cluster_name (futures w ! d))] @
        (case sr of
           None \<Rightarrow> [Delete_task (marker_of sp (unique_id (sky_path_setting (futures w ! d))))]
         | Some e \<Rightarrow>
             if is_NotSupportedError e
             then [Log_warning (''Cluster '' @ cluster_name (futures w ! d) @
                                '' is not supported for stopping.''),
                   Delete_task (marker_of sp (unique_id (sky_path_setting (futures w ! d))))]
             else [])
      else [Delete_task (marker_of sp (unique_id (sky_path_setting (futures w ! d))))])"
  by (simp add: on_task_deleted_def Let_def emit_def delete_task_def split: option.splits)

lemma on_task_deleted_result:
  "tracker_sky_path_setting w = Some sp \<Longrightarrow>
   fst (on_task_deleted sr d w) =
     (if running_tasks_on_cluster d w = [] then
        (case sr of None \<Rightarrow> None | Some e \<Rightarrow> if is_NotSupportedError e then None else Some e)
      else None)"
  by (simp add: on_task_deleted_def Let_def emit_def delete_task_def split: option.splits)

lemma on_task_deleted_markers:
  "tracker_sky_path_setting w = Some sp \<Longrightarrow>
   markers (snd (on_task_deleted sr d w)) =
     (if fst (on_task_deleted sr d w) = None
      then markers w - {marker_of sp (unique_id (sky_path_setting (futures w ! d)))}
      else markers w)"
  by (simp add: on_task_deleted_def Let_def emit_def delete_task_def split: option.splits)

lemmas register_defs =
  register_sky_task_def try_first_register_def SkyTaskFuture_init_def start_def
  launch_process_wrapper_def create_task_def add_done_callback_def update_future_def
  touch_task_def task_exists_def marker_of_def emit_def
  example_env_def example_task_def example_from_task_prefix_def
  empty_world_def Let_def

lemmas callback_defs =
  cancel_def launch_failed_callback_def callback_try_def callback_finally_def set_event_def
  on_task_deleted_def running_tasks_on_cluster_def dict_values_def update_future_def
  emit_def delete_task_def marker_of_def is_terminal_def EventHandler_init_def
  example_env_def example_format_exc_def example_from_task_prefix_def example_task_def Let_def

lemma started_world_eq:
  "started_world = \<lparr>futures = [\<lparr>task_kwargs = example_task ''s3://b/j1'' ''t1'',
       launch_coro = Some 1, status_check_coro = Some 2, status_upload_coro = Some 3,
       sky_path_setting = example_from_task_prefix ''s3://b/j1'' INTERACTIVE ''c2'' ''t1'',
       task_name = ''t1.1'', cluster_name = ''c2'', cancel_callback = Some On_task_deleted,
       event_handler = Some EventHandler_init, launched_process = Some 0, task_status = INIT\<rparr>],
     JOB_RESIGTRY = [(''t1.1'', 0)],
     tracker_sky_path_setting = Some \<lparr>task_level_prefix = ''s3://b/j1'', sky_unique_id = ''a1b2''\<rparr>,
     zip_coro = Some 0,
     tasks = [(Zip_and_upload, [Zip_failed_callback]),
              (Status_poller 0, [Launch_failed_callback 0 ''launch'' False]),
              (Deletion_status 0, [Launch_failed_callback 0 ''deletion status'' True]),
              (Put_task_status 0, [Launch_failed_callback 0 ''upload status'' True])],
     procs = [0], markers = {(''s3://b/j1'', ''a1b2'', ''t1'')},
     trace = [Setup_cloud_credential, Touch_task (''s3://b/j1'', ''a1b2'', ''t1'')]\<rparr>"
  by (simp add: started_world_def register_defs)

lemma two_jobs_world_eq:
  "two_jobs_world = \<lparr>futures = [\<lparr>task_kwargs = example_task ''s3://b/j1'' ''t1'',
       launch_coro = Some 1, status_check_coro = Some 2, status_upload_coro = Some 3,
       sky_path_setting = example_from_task_prefix ''s3://b/j1'' INTERACTIVE ''c2'' ''t1'',
       task_name = ''t1.1'', cluster_name = ''c2'', cancel_callback = Some On_task_deleted,
       event_handler = Some EventHandler_init, launched_process = Some 0, task_status = INIT\<rparr>,
      \<lparr>task_kwargs = example_task ''s3://b/j1'' ''t2'',
       launch_coro = Some 4, status_check_coro = Some 5, status_upload_coro = Some 6,
       sky_path_setting = example_from_task_prefix ''s3://b/j1'' INTERACTIVE ''c2'' ''t2'',
       task_name = ''t2.1'', cluster_name = ''c2'', cancel_callback = Some On_task_deleted,
       event_handler = Some EventHandler_init, launched_process = Some 1, task_status = INIT\<rparr>],
     JOB_RESIGTRY = [(''t1.1'', 0), (''t2.1'', 1)],
     tracker_sky_path_setting = Some \<lparr>task_level_prefix = ''s3://b/j1'', sky_unique_id = ''a1b2''\<rparr>,
     zip_coro = Some 0,
     tasks = [(Zip_and_upload, [Zip_failed_callback]),
              (Status_poller 0, [Launch_failed_callback 0 ''launch'' False]),
              (Deletion_status 0, [Launch_failed_callback 0 ''deletion status'' True]),
              (Put_task_status 0, [Launch_failed_callback 0 ''upload status'' True]),
              (Status_poller 1, [Launch_failed_callback 1 ''launch'' False]),
              (Deletion_status 1, [Launch_failed_callback 1 ''deletion status'' True]),
              (Put_task_status 1, [Launch_failed_callback 1 ''upload status'' True])],
     procs = [0, 1],
     markers = {(''s3://b/j1'', ''a1b2'', ''t2''), (''s3://b/j1'', ''a1b2'', ''t1'')},
     trace = [Setup_cloud_credential, Touch_task (''s3://b/j1'', ''a1b2'', ''t1''),
              Touch_task (''s3://b/j1'', ''a1b2'', ''t2'')]\<rparr>"
  unfolding two_jobs_world_def started_world_eq
  by (simp add: register_defs)

text \<open>
  C4 (as the code has it). When the teardown callback runs for a controller (its status
  has just been set to \<^verbatim>\<open>DONE\<close>), \<^verbatim>\<open>sky.stop\<close> is called on its cluster if and only if the
  registry holds no other controller with the same cluster name and status \<^verbatim>\<open>INIT\<close>.
  When \<^verbatim>\<open>sky.stop\<close> is not called, or returns, or raises the provider's "not supported"
  error, the callback returns, the last thing it does is \<^verbatim>\<open>delete_task\<close> on the job's
  entry, after the stop, and the entry is gone from the Remote Path Registry. When
  \<^verbatim>\<open>sky.stop\<close> is called and raises any other error, that error leaves the callback,
  \<^verbatim>\<open>delete_task\<close> is not called and the entry stays.
\<close>

theorem on_task_deleted_stops_last:
  assumes "tracker_sky_path_setting w = Some sp"
      and "task_status (futures w ! d) = DONE"
  shows "(Sky_stop (cluster_name (futures w ! d)) \<in> set (effects_since w (snd (on_task_deleted sr d w)))) =
           (\<not> (\<exists>a \<in> set (dict_values (JOB_RESIGTRY w)).
                 a \<noteq> d \<and> task_status (futures w ! a) = INIT \<and>
                 cluster_name (futures w ! a) = cluster_name (futures w ! d))) \<and>
         ((\<exists>a \<in> set (dict_values (JOB_RESIGTRY w)).
              a \<noteq> d \<and> task_status (futures w ! a) = INIT \<and>
              cluster_name (futures w ! a) = cluster_name (futures w ! d)) \<or>
          (\<forall>e. sr = Some e \<longrightarrow> is_NotSupportedError e) \<longrightarrow>
            fst (on_task_deleted sr d w) = None \<and>
            (\<exists>stop_part.
               effects_since w (snd (on_task_deleted sr d w)) =
                 stop_part @ [Delete_task (marker_of sp (unique_id (sky_path_setting (futures w ! d))))] \<and>
               Delete_task (marker_of sp (unique_id (sky_path_setting (futures w ! d)))) \<notin> set stop_part) \<and>
            markers (snd (on_task_deleted sr d w)) =
              markers w - {marker_of sp (unique_id (sky_path_setting (futures w ! d)))}) \<and>
         (\<not> (\<exists>a \<in> set (dict_values (JOB_RESIGTRY w)).
                 a \<noteq> d \<and> task_status (futures w ! a) = INIT \<and>
                 cluster_name (futures w ! a) = cluster_name (futures w ! d)) \<and>
          sr = Some e \<and> \<not> is_NotSupportedError e \<longrightarrow>
            fst (on_task_deleted sr d w) = Some e \<and>
            effects_since w (snd (on_task_deleted sr d w)) =
              [Log_warning (''Stopping cluster '' @ cluster_name (futures w ! d)),
               Sky_stop (cluster_name (futures w ! d))] \<and>
            markers (snd (on_task_deleted sr d w)) = markers w)"
proof -
  have ne: "task_status (futures w ! d) \<noteq> INIT" using assms(2) by simp
  note tr = on_task_deleted_trace [OF assms(1)]
  show ?thesis
    using running_tasks_on_cluster_empty [OF ne]
    by (auto simp: effects_since_append [OF tr] on_task_deleted_result [OF assms(1)]
          on_task_deleted_markers [OF assms(1)] split: option.splits)
qed

text \<open>
  C4, the scenario of two jobs on one cluster: both are registered in a fresh process;
  the first is cancelled and torn down, and the cluster is not stopped; then the second
  is cancelled and torn down, and the cluster is stopped.
\<close>

theorem on_task_deleted_stops_last_witness:
  "tracker_sky_path_setting (at_teardown 0 two_jobs_world) =
     Some \<lparr>task_level_prefix = ''s3://b/j1'', sky_unique_id = ''a1b2''\<rparr> \<and>
   task_status (futures (at_teardown 0 two_jobs_world) ! 0) = DONE \<and>
   run example_env [Cancel_called 0, Coroutine_done 0 ''launch'' False Task_returned None]
     two_jobs_world = after_first_teardown \<and>
   Sky_stop ''c2'' \<notin> set (effects_since (at_teardown 0 two_jobs_world) after_first_teardown) \<and>
   markers after_first_teardown = {(''s3://b/j1'', ''a1b2'', ''t2'')} \<and>
   tracker_sky_path_setting (at_teardown 1 after_first_teardown) =
     Some \<lparr>task_level_prefix = ''s3://b/j1'', sky_unique_id = ''a1b2''\<rparr> \<and>
   task_status (futures (at_teardown 1 after_first_teardown) ! 1) = DONE \<and>
   run example_env [Cancel_called 1, Coroutine_done 1 ''launch'' False Task_returned None]
     after_first_teardown = snd (on_task_deleted None 1 (at_teardown 1 after_first_teardown)) \<and>
   effects_since (at_teardown 1 after_first_teardown)
     (snd (on_task_deleted None 1 (at_teardown 1 after_first_teardown))) =
     [Log_warning ''Stopping cluster c2'', Sky_stop ''c2'',
      Delete_task (''s3://b/j1'', ''a1b2'', ''t2'')] \<and>
   markers (snd (on_task_deleted None 1 (at_teardown 1 after_first_teardown))) = {}"
proof -
  have a1: "tracker_sky_path_setting (at_teardown 0 two_jobs_world) =
     Some \<lparr>task_level_prefix = ''s3://b/j1'', sky_unique_id = ''a1b2''\<rparr>"
    and a2: "task_status (futures (at_teardown 0 two_jobs_world) ! 0) = DONE"
    unfolding two_jobs_world_eq by (simp_all add: at_teardown_def callback_defs)
  have b1: "tracker_sky_path_setting (at_teardown 1 after_first_teardown) =
     Some \<lparr>task_level_prefix = ''s3://b/j1'', sky_unique_id = ''a1b2''\<rparr>"
    and b2: "task_status (futures (at_teardown 1 after_first_teardown) ! 1) = DONE"
    unfolding after_first_teardown_def two_jobs_world_eq
    by (simp_all add: at_teardown_def callback_defs)
  have r1: "run example_env [Cancel_called 0, Coroutine_done 0 ''launch'' False Task_returned None]
     two_jobs_world = after_first_teardown"
    unfolding after_first_teardown_def two_jobs_world_eq
    by (simp add: at_teardown_def callback_defs)
  have r2: "run example_env [Cancel_called 1, Coroutine_done 1 ''launch'' False Task_returned None]
     after_first_teardown = snd (on_task_deleted None 1 (at_teardown 1 after_first_teardown))"
    unfolding after_first_teardown_def two_jobs_world_eq
    by (simp add: at_teardown_def callback_defs)
  have c: "cluster_name (futures (at_teardown 0 two_jobs_world) ! 0) = ''c2'' \<and>
        cluster_name (futures (at_teardown 1 after_first_teardown) ! 1) = ''c2'' \<and>
        dict_values (JOB_RESIGTRY (at_teardown 0 two_jobs_world)) = [0, 1] \<and>
        dict_values (JOB_RESIGTRY (at_teardown 1 after_first_teardown)) = [0, 1] \<and>
        task_status (futures (at_teardown 0 two_jobs_world) ! 1) = INIT \<and>
        cluster_name (futures (at_teardown 0 two_jobs_world) ! 1) = ''c2'' \<and>
        task_status (futures (at_teardown 1 after_first_teardown) ! 0) = DONE \<and>
        unique_id (sky_path_setting (futures (at_teardown 0 two_jobs_world) ! 0)) = ''t1'' \<and>
        unique_id (sky_path_setting (futures (at_teardown 1 after_first_teardown) ! 1)) = ''t2'' \<and>
        markers (at_teardown 0 two_jobs_world) =
          {(''s3://b/j1'', ''a1b2'', ''t2''), (''s3://b/j1'', ''a1b2'', ''t1'')} \<and>
        markers (at_teardown 1 after_first_teardown) = {(''s3://b/j1'', ''a1b2'', ''t2'')}"
    unfolding after_first_teardown_def two_jobs_world_eq
    by (simp add: at_teardown_def callback_defs insert_Diff_if)
  have e2: "effects_since (at_teardown 1 after_first_teardown)
     (snd (on_task_deleted None 1 (at_teardown 1 after_first_teardown))) =
     [Log_warning ''Stopping cluster c2'', Sky_stop ''c2'',
      Delete_task (''s3://b/j1'', ''a1b2'', ''t2'')]"
    unfolding after_first_teardown_def two_jobs_world_eq
    by (simp add: at_teardown_def callback_defs effects_since_def)
  from on_task_deleted_stops_last [OF a1 a2, of None]
       on_task_deleted_stops_last [OF b1 b2, of None] c
  have "Sky_stop ''c2'' \<notin> set (effects_since (at_teardown 0 two_jobs_world) after_first_teardown)"
    and "markers after_first_teardown = {(''s3://b/j1'', ''a1b2'', ''t2'')}"
    and "markers (snd (on_task_deleted None 1 (at_teardown 1 after_first_teardown))) = {}"
    unfolding after_first_teardown_def [symmetric]
    by (auto simp: marker_of_def after_first_teardown_def)
  with a1 a2 b1 b2 r1 r2 e2 show ?thesis by simp
qed

text \<open>
  C4 (counterexample to the claim as stated). At the teardown of the second job of the
  scenario \<^verbatim>\<open>sky.stop\<close> raises a \<^verbatim>\<open>ValueError\<close>: the error leaves \<^verbatim>\<open>on_task_deleted\<close>,
  \<^verbatim>\<open>delete_task\<close> is not called, and the job's marker is still in the Remote Path
  Registry.
\<close>

theorem on_task_deleted_other_error_keeps_entry:
  "on_task_deleted (Some (ValueError ''Cluster c2 does not exist.'')) 1
     (at_teardown 1 after_first_teardown) =
     (Some (ValueError ''Cluster c2 does not exist.''),
      (at_teardown 1 after_first_teardown)
        \<lparr>trace := trace (at_teardown 1 after_first_teardown) @
           [Log_warning ''Stopping cluster c2'', Sky_stop ''c2'']\<rparr>) \<and>
   markers (at_teardown 1 after_first_teardown) = {(''s3://b/j1'', ''a1b2'', ''t2'')} \<and>
   (''s3://b/j1'', ''a1b2'', ''t2'') \<in>
     markers (snd (on_task_deleted (Some (ValueError ''Cluster c2 does not exist.'')) 1
                     (at_teardown 1 after_first_teardown)))"
  unfolding after_first_teardown_def two_jobs_world_eq
  by (simp add: at_teardown_def callback_defs insert_Diff_if)

text \<open>
  C7. When \<^verbatim>\<open>sky.stop\<close> is called during teardown and raises the provider's "not
  supported" error, \<^verbatim>\<open>on_task_deleted\<close> raises nothing: it logs a warning and goes on to
  \<^verbatim>\<open>delete_task\<close>, which removes the job's entry.
\<close>

theorem on_task_deleted_not_supported:
  assumes "tracker_sky_path_setting w = Some sp"
      and "running_tasks_on_cluster d w = []"
      and "is_NotSupportedError e"
  shows "fst (on_task_deleted (Some e) d w) = None \<and>
         effects_since w (snd (on_task_deleted (Some e) d w)) =
           [Log_warning (''Stopping cluster '' @ cluster_name (futures w ! d)),
            Sky_stop (cluster_name (futures w ! d)),
            Log_warning (''Cluster '' @ cluster_name (futures w ! d) @
                         '' is not supported for stopping.''),
            Delete_task (marker_of sp (unique_id (sky_path_setting (futures w ! d))))] \<and>
         markers (snd (on_task_deleted (Some e) d w)) =
           markers w - {marker_of sp (unique_id (sky_path_setting (futures w ! d)))}"
  using assms
  by (simp add: effects_since_append [OF on_task_deleted_trace [OF assms(1), of "Some e" d]]
        on_task_deleted_result on_task_deleted_markers)

text \<open>
  C7, at the teardown of the second job of the scenario; nothing leaves the done-callback
  that called the teardown either.
\<close>

theorem on_task_deleted_not_supported_witness:
  "tracker_sky_path_setting (at_teardown 1 after_first_teardown) =
     Some \<lparr>task_level_prefix = ''s3://b/j1'', sky_unique_id = ''a1b2''\<rparr> \<and>
   running_tasks_on_cluster 1 (at_teardown 1 after_first_teardown) = [] \<and>
   is_NotSupportedError (NotSupportedError ''spot'') \<and>
   on_task_deleted (Some (NotSupportedError ''spot'')) 1 (at_teardown 1 after_first_teardown) =
     (None,
      (at_teardown 1 after_first_teardown)
        \<lparr>markers := {},
         trace := trace (at_teardown 1 after_first_teardown) @
           [Log_warning ''Stopping cluster c2'', Sky_stop ''c2'',
            Log_warning ''Cluster c2 is not supported for stopping.'',
            Delete_task (''s3://b/j1'', ''a1b2'', ''t2'')]\<rparr>) \<and>
   fst (launch_failed_callback example_env (Some (NotSupportedError ''spot'')) 1 Task_returned
          ''launch'' False (snd (cancel 1 after_first_teardown))) = None"
proof -
  have a: "tracker_sky_path_setting (at_teardown 1 after_first_teardown) =
     Some \<lparr>task_level_prefix = ''s3://b/j1'', sky_unique_id = ''a1b2''\<rparr>"
    and b: "running_tasks_on_cluster 1 (at_teardown 1 after_first_teardown) = []"
    and d: "on_task_deleted (Some (NotSupportedError ''spot'')) 1 (at_teardown 1 after_first_teardown) =
     (None,
      (at_teardown 1 after_first_teardown)
        \<lparr>markers := {},
         trace := trace (at_teardown 1 after_first_teardown) @
           [Log_warning ''Stopping cluster c2'', Sky_stop ''c2'',
            Log_warning ''Cluster c2 is not supported for stopping.'',
            Delete_task (''s3://b/j1'', ''a1b2'', ''t2'')]\<rparr>)"
    and e: "fst (launch_failed_callback example_env (Some (NotSupportedError ''spot'')) 1 Task_returned
          ''launch'' False (snd (cancel 1 after_first_teardown))) = None"
    unfolding after_first_teardown_def two_jobs_world_eq
    by (simp_all add: at_teardown_def callback_defs insert_Diff_if)
  have c: "is_NotSupportedError (NotSupportedError ''spot'')" by simp
  from on_task_deleted_not_supported [OF a b c] a b c d e show ?thesis by simp
qed

subsection \<open>Registering a task\<close>

lemma futures_try_first_register [simp]:
  "futures (try_first_register ev tt w) = futures w"
  by (simp add: try_first_register_def create_task_def add_done_callback_def Let_def emit_def)

lemma markers_try_first_register [simp]:
  "markers (try_first_register ev tt w) = markers w"
  by (simp add: try_first_register_def create_task_def add_done_callback_def Let_def emit_def)

lemma procs_try_first_register [simp]:
  "procs (try_first_register ev tt w) = procs w"
  by (simp add: try_first_register_def create_task_def add_done_callback_def Let_def emit_def)

lemma registry_try_first_register [simp]:
  "JOB_RESIGTRY (try_first_register ev tt w) = JOB_RESIGTRY w"
  by (simp add: try_first_register_def create_task_def add_done_callback_def Let_def emit_def)

lemma trace_try_first_register:
  "trace (try_first_register ev tt w) =
     trace w @ (if JOB_RESIGTRY w = [] then [Setup_cloud_credential] else [])"
  by (simp add: try_first_register_def create_task_def add_done_callback_def Let_def emit_def)

lemma tasks_try_first_register:
  "tasks (try_first_register ev tt w) =
     tasks w @ (if JOB_RESIGTRY w = [] then [(Zip_and_upload, [Zip_failed_callback])] else [])"
  by (simp add: try_first_register_def create_task_def add_done_callback_def Let_def emit_def)

lemma tracker_try_first_register:
  "tracker_sky_path_setting (try_first_register ev tt w) =
     (if JOB_RESIGTRY w = []
      then Some \<lparr>task_level_prefix = raw_output_data_prefix tt, sky_unique_id = hostname ev\<rparr>
      else tracker_sky_path_setting w)"
  by (simp add: try_first_register_def create_task_def add_done_callback_def Let_def emit_def)

lemma start_frame [simp]:
  "markers (start a cb w) = markers w"
  "trace (start a cb w) = trace w"
  "tracker_sky_path_setting (start a cb w) = tracker_sky_path_setting w"
  "JOB_RESIGTRY (start a cb w) = JOB_RESIGTRY w"
  "procs (start a cb w) = procs w @ [a]"
  "length (futures (start a cb w)) = length (futures w)"
  by (simp_all add: start_def launch_process_wrapper_def create_task_def add_done_callback_def
      update_future_def Let_def)

lemma start_sky_path_setting:
  "map sky_path_setting (futures (start a cb w)) = map sky_path_setting (futures w)"
  by (cases "a < length (futures w)")
     (simp_all add: start_def launch_process_wrapper_def create_task_def add_done_callback_def
      update_future_def Let_def nth_append map_list_update_same not_less list_update_beyond)

lemma register_exists:
  assumes "tracker_sky_path_setting (try_first_register ev tt w) = Some sp"
      and "marker_of sp (unique_id (sky_path_setting (SkyTaskFuture_init ev tt))) \<in> markers w"
  shows "register_sky_task ev tt w =
           (Inr (length (futures w)),
            emit (Log_warning (task_name (SkyTaskFuture_init ev tt) @ '' task has already been created.''))
              ((try_first_register ev tt w)\<lparr>futures := futures w @ [SkyTaskFuture_init ev tt]\<rparr>))"
  using assms by (simp add: register_sky_task_def Let_def task_exists_def)

lemma register_fresh:
  assumes "tracker_sky_path_setting (try_first_register ev tt w) = Some sp"
      and "marker_of sp (unique_id (sky_path_setting (SkyTaskFuture_init ev tt))) \<notin> markers w"
  shows "register_sky_task ev tt w =
           (Inr (length (futures w)),
            (start (length (futures w)) (Some On_task_deleted)
               (touch_task sp (unique_id (sky_path_setting (SkyTaskFuture_init ev tt)))
                  ((try_first_register ev tt w)\<lparr>futures := futures w @ [SkyTaskFuture_init ev tt]\<rparr>)))
            \<lparr>JOB_RESIGTRY := dict_set (task_name (SkyTaskFuture_init ev tt)) (length (futures w))
                 (JOB_RESIGTRY w)\<rparr>)"
  using assms by (simp add: register_sky_task_def Let_def task_exists_def touch_task_def emit_def)

lemma dict_set_not_Nil [simp]: "dict_set k v d \<noteq> []"
  by (cases d) (auto split: if_splits)

lemma register_exists_frame:
  assumes "tracker_sky_path_setting (try_first_register ev tt w) = Some sp"
      and "marker_of sp (unique_id (sky_path_setting (SkyTaskFuture_init ev tt))) \<in> markers w"
      and "register_sky_task ev tt w = (r, w')"
  shows "r = Inr (length (futures w))"
    and "futures w' = futures w @ [SkyTaskFuture_init ev tt]"
    and "procs w' = procs w"
    and "JOB_RESIGTRY w' = JOB_RESIGTRY w"
    and "markers w' = markers w"
    and "tracker_sky_path_setting w' = Some sp"
    and "trace w' = trace w @ (if JOB_RESIGTRY w = [] then [Setup_cloud_credential] else []) @
           [Log_warning (task_name (SkyTaskFuture_init ev tt) @ '' task has already been created.'')]"
    and "tasks w' = tasks w @ (if JOB_RESIGTRY w = [] then [(Zip_and_upload, [Zip_failed_callback])] else [])"
  using assms(3) assms(1) unfolding register_exists [OF assms(1,2)]
  by (auto simp: emit_def trace_try_first_register tasks_try_first_register)

lemma register_fresh_frame:
  assumes "tracker_sky_path_setting (try_first_register ev tt w) = Some sp"
      and "marker_of sp (unique_id (sky_path_setting (SkyTaskFuture_init ev tt))) \<notin> markers w"
      and "register_sky_task ev tt w = (r, w')"
  shows "r = Inr (length (futures w))"
    and "length (futures w') = Suc (length (futures w))"
    and "sky_path_setting (futures w' ! length (futures w)) = sky_path_setting (SkyTaskFuture_init ev tt)"
    and "procs w' = procs w @ [length (futures w)]"
    and "JOB_RESIGTRY w' \<noteq> []"
    and "markers w' = insert (marker_of sp (unique_id (sky_path_setting (SkyTaskFuture_init ev tt)))) (markers w)"
    and "tracker_sky_path_setting w' = Some sp"
    and "trace w' = trace w @ (if JOB_RESIGTRY w = [] then [Setup_cloud_credential] else []) @
           [Touch_task (marker_of sp (unique_id (sky_path_setting (SkyTaskFuture_init ev tt))))]"
proof -
  let ?f = "SkyTaskFuture_init ev tt"
  let ?w0 = "touch_task sp (unique_id (sky_path_setting ?f))
                  ((try_first_register ev tt w)\<lparr>futures := futures w @ [?f]\<rparr>)"
  have w': "w' = (start (length (futures w)) (Some On_task_deleted) ?w0)
            \<lparr>JOB_RESIGTRY := dict_set (task_name ?f) (length (futures w)) (JOB_RESIGTRY w)\<rparr>"
    and r: "r = Inr (length (futures w))"
    using assms(3) unfolding register_fresh [OF assms(1,2)] by auto
  show "r = Inr (length (futures w))" by (rule r)
  show "length (futures w') = Suc (length (futures w))"
    by (simp add: w' touch_task_def emit_def)
  have "map sky_path_setting (futures w') = map sky_path_setting (futures w @ [?f])"
    by (simp add: w' start_sky_path_setting touch_task_def emit_def)
  then have "map sky_path_setting (futures w') ! length (futures w) =
             map sky_path_setting (futures w @ [?f]) ! length (futures w)" by simp
  then show "sky_path_setting (futures w' ! length (futures w)) = sky_path_setting ?f"
    using \<open>length (futures w') = Suc (length (futures w))\<close> by (simp add: nth_append)
  show "procs w' = procs w @ [length (futures w)]"
    by (simp add: w' touch_task_def emit_def)
  show "JOB_RESIGTRY w' \<noteq> []" by (simp add: w')
  show "markers w' = insert (marker_of sp (unique_id (sky_path_setting ?f))) (markers w)"
    by (simp add: w' touch_task_def emit_def)
  show "tracker_sky_path_setting w' = Some sp"
    using assms(1) by (simp add: w' touch_task_def emit_def)
  show "trace w' = trace w @ (if JOB_RESIGTRY w = [] then [Setup_cloud_credential] else []) @
           [Touch_task (marker_of sp (unique_id (sky_path_setting ?f)))]"
    by (simp add: w' touch_task_def emit_def trace_try_first_register)
qed

lemma tracker_after_register:
  assumes "tracker_sky_path_setting (try_first_register ev tt w) = Some sp"
      and "tracker_sky_path_setting w1 = Some sp"
      and "JOB_RESIGTRY w1 = [] \<longrightarrow> JOB_RESIGTRY w = []"
  shows "tracker_sky_path_setting (try_first_register ev tt w1) = Some sp"
  using assms by (auto simp: tracker_try_first_register split: if_splits)

text \<open>
  C1. For every task template, when \<^verbatim>\<open>register_sky_task\<close> is called twice in sequence
  with it (the tracker's path setting being set once the registry is not empty), both
  calls return a controller and the two controllers have the same remote path setting.
  The second call finds the task marked as created, starts no worker process, leaves the
  registry as it is and makes no outside call but the warning (and the credential setup
  when the registry is still empty); over both calls \<^verbatim>\<open>touch_task\<close> is called once for
  the job's marker if it was absent and never if it was present, at most one worker
  process is started, and the marker is present at the end.
\<close>

theorem register_twice_no_double_launch:
  assumes "tracker_sky_path_setting (try_first_register ev tt w) = Some sp"
      and "register_sky_task ev tt w = (r1, w1)"
      and "register_sky_task ev tt w1 = (r2, w2)"
  shows "r1 = Inr (length (futures w)) \<and> r2 = Inr (Suc (length (futures w))) \<and>
         sky_path_setting (futures w2 ! Suc (length (futures w))) =
           sky_path_setting (futures w2 ! length (futures w)) \<and>
         task_exists sp (unique_id (sky_path_setting (SkyTaskFuture_init ev tt))) w1 \<and>
         procs w2 = procs w1 \<and>
         procs w2 = procs w @
           (if task_exists sp (unique_id (sky_path_setting (SkyTaskFuture_init ev tt))) w
            then [] else [length (futures w)]) \<and>
         JOB_RESIGTRY w2 = JOB_RESIGTRY w1 \<and>
         effects_since w1 w2 =
           (if JOB_RESIGTRY w1 = [] then [Setup_cloud_credential] else []) @
           [Log_warning (task_name (SkyTaskFuture_init ev tt) @ '' task has already been created.'')] \<and>
         count_list (effects_since w w2)
           (Touch_task (marker_of sp (unique_id (sky_path_setting (SkyTaskFuture_init ev tt))))) =
           (if task_exists sp (unique_id (sky_path_setting (SkyTaskFuture_init ev tt))) w
            then 0 else 1) \<and>
         marker_of sp (unique_id (sky_path_setting (SkyTaskFuture_init ev tt))) \<in> markers w2"
proof -
  let ?f = "SkyTaskFuture_init ev tt"
  let ?m = "marker_of sp (unique_id (sky_path_setting ?f))"
  show ?thesis
  proof (cases "?m \<in> markers w")
    case True
    note f1 = register_exists_frame [OF assms(1) True assms(2)]
    have t1: "tracker_sky_path_setting (try_first_register ev tt w1) = Some sp"
      by (rule tracker_after_register [OF assms(1) f1(6)]) (simp add: f1(4))
    have m1: "?m \<in> markers w1" using True by (simp add: f1(5))
    note f2 = register_exists_frame [OF t1 m1 assms(3)]
    show ?thesis
      using True m1
      by (simp add: f1 f2 task_exists_def nth_append effects_since_def)
  next
    case False
    note f1 = register_fresh_frame [OF assms(1) False assms(2)]
    have t1: "tracker_sky_path_setting (try_first_register ev tt w1) = Some sp"
      by (rule tracker_after_register [OF assms(1) f1(7)]) (simp add: f1(5))
    have m1: "?m \<in> markers w1" by (simp add: f1(6))
    note f2 = register_exists_frame [OF t1 m1 assms(3)]
    show ?thesis
      using False m1 f1(3) f1(5)
      by (simp add: f1(1,2,4,6,7,8) f2 task_exists_def nth_append effects_since_def)
  qed
qed

lemma registered_twice_world_eq:
  "register_sky_task example_env (example_task ''s3://b/j1'' ''t1'') started_world =
     (Inr 1, registered_twice_world) \<and>
   registered_twice_world =
     started_world\<lparr>futures := futures started_world @
                      [SkyTaskFuture_init example_env (example_task ''s3://b/j1'' ''t1'')],
                   trace := trace started_world @
                      [Log_warning ''t1.1 task has already been created.'']\<rparr>"
  unfolding registered_twice_world_def started_world_eq
  by (simp add: register_defs)

text \<open>C1, at a concrete input: one task template registered twice in a fresh process.\<close>

theorem register_twice_no_double_launch_witness:
  "tracker_sky_path_setting
     (try_first_register example_env (example_task ''s3://b/j1'' ''t1'') empty_world) =
     Some \<lparr>task_level_prefix = ''s3://b/j1'', sky_unique_id = ''a1b2''\<rparr> \<and>
   register_sky_task example_env (example_task ''s3://b/j1'' ''t1'') empty_world =
     (Inr 0, started_world) \<and>
   register_sky_task example_env (example_task ''s3://b/j1'' ''t1'') started_world =
     (Inr 1, registered_twice_world) \<and>
   sky_path_setting (futures registered_twice_world ! 1) =
     sky_path_setting (futures registered_twice_world ! 0) \<and>
   procs registered_twice_world = [0] \<and>
   count_list (effects_since empty_world registered_twice_world)
     (Touch_task (''s3://b/j1'', ''a1b2'', ''t1'')) = 1 \<and>
   (''s3://b/j1'', ''a1b2'', ''t1'') \<in> markers registered_twice_world"
proof -
  have a: "tracker_sky_path_setting
     (try_first_register example_env (example_task ''s3://b/j1'' ''t1'') empty_world) =
     Some \<lparr>task_level_prefix = ''s3://b/j1'', sky_unique_id = ''a1b2''\<rparr>"
    by (simp add: register_defs)
  have b: "register_sky_task example_env (example_task ''s3://b/j1'' ''t1'') empty_world =
     (Inr 0, started_world)"
    unfolding started_world_eq by (simp add: register_defs)
  have c: "register_sky_task example_env (example_task ''s3://b/j1'' ''t1'') started_world =
     (Inr 1, registered_twice_world)"
    using registered_twice_world_eq by simp
  have d: "\<not> task_exists \<lparr>task_level_prefix = ''s3://b/j1'', sky_unique_id = ''a1b2''\<rparr>
            (unique_id (sky_path_setting
               (SkyTaskFuture_init example_env (example_task ''s3://b/j1'' ''t1'')))) empty_world"
    "unique_id (sky_path_setting
               (SkyTaskFuture_init example_env (example_task ''s3://b/j1'' ''t1''))) = ''t1''"
    "futures empty_world = []" "procs empty_world = []" "procs started_world = [0]"
    by (simp_all add: register_defs started_world_eq)
  from register_twice_no_double_launch [OF a b c] a b c d
  show ?thesis by (simp add: marker_of_def)
qed

text \<open>
  C10 (as the code has it). When \<^verbatim>\<open>register_sky_task\<close> finds the task marked as created,
  the controller it returns is a new object on which \<^verbatim>\<open>start\<close> was never called: its status
  is \<^verbatim>\<open>INIT\<close>, it has no event handler, callback, coroutines or process, no worker
  process and no controller task were created, and the registry is unchanged. A later
  \<^verbatim>\<open>delete\<close> for a job name therefore takes the remote-deletion path exactly when that
  name was not in the registry before the call, and otherwise cancels the controller
  that an earlier registration in this process indexed under the name.
\<close>

theorem register_existing_not_indexed:
  assumes "tracker_sky_path_setting (try_first_register ev tt w) = Some sp"
      and "task_exists sp (unique_id (sky_path_setting (SkyTaskFuture_init ev tt))) w"
      and "register_sky_task ev tt w = (r, w')"
  shows "r = Inr (length (futures w)) \<and>
         futures w' = futures w @ [SkyTaskFuture_init ev tt] \<and>
         task_status (futures w' ! length (futures w)) = INIT \<and>
         event_handler (futures w' ! length (futures w)) = None \<and>
         cancel_callback (futures w' ! length (futures w)) = None \<and>
         launch_coro (futures w' ! length (futures w)) = None \<and>
         status_check_coro (futures w' ! length (futures w)) = None \<and>
         status_upload_coro (futures w' ! length (futures w)) = None \<and>
         launched_process (futures w' ! length (futures w)) = None \<and>
         procs w' = procs w \<and>
         tasks w' = tasks w @
           (if JOB_RESIGTRY w = [] then [(Zip_and_upload, [Zip_failed_callback])] else []) \<and>
         JOB_RESIGTRY w' = JOB_RESIGTRY w \<and>
         delete now last_upload meta w' =
           (case map_of (JOB_RESIGTRY w) (job_name meta) of
              None \<Rightarrow> (None, remote_deletion now last_upload meta w')
            | Some existed_task \<Rightarrow> cancel existed_task w')"
proof -
  have m: "marker_of sp (unique_id (sky_path_setting (SkyTaskFuture_init ev tt))) \<in> markers w"
    using assms(2) by (simp add: task_exists_def)
  note f = register_exists_frame [OF assms(1) m assms(3)]
  show ?thesis
    by (simp add: f delete_def SkyTaskFuture_init_def Let_def)
qed

text \<open>
  C10, at a concrete input: the marker was left by another process, the registry is
  empty, and \<^verbatim>\<open>delete\<close> takes the remote-deletion path.
\<close>

theorem register_existing_not_indexed_witness:
  "tracker_sky_path_setting
     (try_first_register example_env (example_task ''s3://b/j1'' ''t1'') marked_world) =
     Some \<lparr>task_level_prefix = ''s3://b/j1'', sky_unique_id = ''a1b2''\<rparr> \<and>
   task_exists \<lparr>task_level_prefix = ''s3://b/j1'', sky_unique_id = ''a1b2''\<rparr>
     (unique_id (sky_path_setting
        (SkyTaskFuture_init example_env (example_task ''s3://b/j1'' ''t1'')))) marked_world \<and>
   fst (register_sky_task example_env (example_task ''s3://b/j1'' ''t1'') marked_world) = Inr 0 \<and>
   JOB_RESIGTRY (snd (register_sky_task example_env (example_task ''s3://b/j1'' ''t1'')
                        marked_world)) = [] \<and>
   procs (snd (register_sky_task example_env (example_task ''s3://b/j1'' ''t1'')
                        marked_world)) = [] \<and>
   delete 1000000000 (Some 900000000) (example_meta ''t1.1'')
     (snd (register_sky_task example_env (example_task ''s3://b/j1'' ''t1'') marked_world)) =
     (None, emit (Upload_delete_proto ''t1.1'')
       (snd (register_sky_task example_env (example_task ''s3://b/j1'' ''t1'') marked_world)))"
proof -
  let ?tt = "example_task ''s3://b/j1'' ''t1''"
  have a: "tracker_sky_path_setting (try_first_register example_env ?tt marked_world) =
     Some \<lparr>task_level_prefix = ''s3://b/j1'', sky_unique_id = ''a1b2''\<rparr>"
    by (simp add: register_defs marked_world_def)
  have b: "task_exists \<lparr>task_level_prefix = ''s3://b/j1'', sky_unique_id = ''a1b2''\<rparr>
     (unique_id (sky_path_setting (SkyTaskFuture_init example_env ?tt))) marked_world"
    by (simp add: register_defs marked_world_def)
  have c: "register_sky_task example_env ?tt marked_world =
     (fst (register_sky_task example_env ?tt marked_world),
      snd (register_sky_task example_env ?tt marked_world))" by simp
  have d: "JOB_RESIGTRY marked_world = []" "procs marked_world = []" "futures marked_world = []"
    by (simp_all add: marked_world_def empty_world_def)
  from register_existing_not_indexed [OF a b c, of 1000000000 "Some 900000000" "example_meta ''t1.1''"]
    a b d
  show ?thesis
    by (simp add: remote_deletion_def check_remote_agent_alive_def
        CONTROLLER_IDLE_MINUTES_TO_AUTOSTOP_def total_seconds_def example_meta_def)
qed

text \<open>
  C10 (counterexample to the claim as stated). The same task is created twice in one
  process. The second \<^verbatim>\<open>create\<close> finds the task marked as created and returns metadata
  for an unindexed controller; a \<^verbatim>\<open>delete\<close> with this metadata finds the job name in the
  registry, where the first call put it, and takes the in-process cancel path on the
  first controller: no deletion marker is uploaded.
\<close>

theorem delete_after_second_register_cancels:
  "create example_env (example_task ''s3://b/j1'' ''t1'') started_world =
     (Inr (example_meta ''t1.1''), registered_twice_world) \<and>
   task_exists \<lparr>task_level_prefix = ''s3://b/j1'', sky_unique_id = ''a1b2''\<rparr> ''t1'' started_world \<and>
   delete 1000000000 (Some 900000000) (example_meta ''t1.1'') registered_twice_world =
     cancel 0 registered_twice_world \<and>
   fst (delete 1000000000 (Some 900000000) (example_meta ''t1.1'') registered_twice_world) = None \<and>
   event_handler
     (futures (snd (delete 1000000000 (Some 900000000) (example_meta ''t1.1'')
                      registered_twice_world)) ! 0) =
     Some (EventHandler_init\<lparr>cancel_event := True\<rparr>) \<and>
   Upload_delete_proto ''t1.1'' \<notin>
     set (trace (snd (delete 1000000000 (Some 900000000) (example_meta ''t1.1'')
                        registered_twice_world)))"
proof -
  note r = registered_twice_world_eq
  have c0: "create example_env (example_task ''s3://b/j1'' ''t1'') started_world =
     (Inr \<lparr>job_name = task_name (futures registered_twice_world ! 1),
           meta_cluster_name = cluster_name (futures registered_twice_world ! 1),
           task_metadata_prefix = file_access (sky_path_setting (futures registered_twice_world ! 1)),
           tracker_hostname = hostname example_env,
           job_launch_type = custom_job_launch_type (example_task ''s3://b/j1'' ''t1'')\<rparr>,
      registered_twice_world)"
    by (simp add: create_def conjunct1 [OF r])
  have c1: "task_name (futures registered_twice_world ! 1) = ''t1.1''"
    "cluster_name (futures registered_twice_world ! 1) = ''c2''"
    "file_access (sky_path_setting (futures registered_twice_world ! 1)) = ''s3://b/j1''"
    "hostname example_env = ''a1b2''"
    "custom_job_launch_type (example_task ''s3://b/j1'' ''t1'') = INTERACTIVE"
    by (simp_all add: conjunct2 [OF r] started_world_eq SkyTaskFuture_init_def example_env_def
        example_task_def example_from_task_prefix_def Let_def)
  have c: "create example_env (example_task ''s3://b/j1'' ''t1'') started_world =
     (Inr (example_meta ''t1.1''), registered_twice_world)"
    unfolding c0 c1 by (simp add: example_meta_def)
  have rest: "task_exists \<lparr>task_level_prefix = ''s3://b/j1'', sky_unique_id = ''a1b2''\<rparr> ''t1'' started_world"
   "delete 1000000000 (Some 900000000) (example_meta ''t1.1'') registered_twice_world =
     cancel 0 registered_twice_world"
   "fst (delete 1000000000 (Some 900000000) (example_meta ''t1.1'') registered_twice_world) = None"
   "event_handler
     (futures (snd (delete 1000000000 (Some 900000000) (example_meta ''t1.1'')
                      registered_twice_world)) ! 0) =
     Some (EventHandler_init\<lparr>cancel_event := True\<rparr>)"
   "Upload_delete_proto ''t1.1'' \<notin>
     set (trace (snd (delete 1000000000 (Some 900000000) (example_meta ''t1.1'')
                        registered_twice_world)))"
    by (simp_all add: conjunct2 [OF r] started_world_eq delete_def cancel_def example_meta_def
        task_exists_def marker_of_def update_future_def EventHandler_init_def)
  with c show ?thesis by simp
qed

subsection \<open>Liveness\<close>

text \<open>
  C2 (as the code has it). The liveness check answers \<open>True\<close> when no heartbeat was ever
  written; with a heartbeat it answers \<open>False\<close> exactly when the heartbeat is more than
  600 seconds old, and \<open>True\<close> otherwise.
\<close>

theorem check_remote_agent_alive_spec:
  "check_remote_agent_alive now None = True \<and>
   check_remote_agent_alive now (Some t) = (total_seconds (now - t) \<le> 600)"
  by (simp add: check_remote_agent_alive_def CONTROLLER_IDLE_MINUTES_TO_AUTOSTOP_def
      Let_def not_less)

text \<open>
  C2 (counterexample to the claim as stated). With no heartbeat ever written the check
  does not answer \<open>False\<close>. The two concrete cases of the specification, a heartbeat 700
  and 100 seconds old, behave as stated.
\<close>

theorem check_remote_agent_alive_no_heartbeat:
  "check_remote_agent_alive 1000000000 None \<noteq> False \<and>
   check_remote_agent_alive 1000000000 (Some 300000000) = False \<and>
   check_remote_agent_alive 1000000000 (Some 900000000) = True"
  by (simp add: check_remote_agent_alive_def CONTROLLER_IDLE_MINUTES_TO_AUTOSTOP_def
      total_seconds_def)

end
